theory Spec2Isabelle
  imports Main "HOL-Library.Sublist"
begin

section \<open>Python values used by the handler\<close>

text \<open>
  A Python \<open>str\<close> is a sequence of Unicode code points, a \<open>bytes\<close> object a sequence
  of octets. String literals of the source are written with \<open>pystr\<close>.
\<close>

type_synonym pystr = "nat list"
type_synonym bytes = "char list"

definition pystr :: "string \<Rightarrow> pystr" where
  "pystr s = map of_char s"

text \<open>Exceptions of the source, each with the text that \<open>str(e)\<close> gives.\<close>

datatype exn =
    ValueError pystr
  | IndexError pystr
  | UnicodeEncodeError pystr
  | ClientError pystr

fun str_exn :: "exn \<Rightarrow> pystr" where
  "str_exn (ValueError m) = m"
| "str_exn (IndexError m) = m"
| "str_exn (UnicodeEncodeError m) = m"
| "str_exn (ClientError m) = m"

subsection \<open>Sequence primitives: startswith, endswith, in, find, split, strip\<close>

fun startswith :: "'a list \<Rightarrow> 'a list \<Rightarrow> bool" where
  "startswith s [] = True"
| "startswith [] (p # ps) = False"
| "startswith (x # xs) (p # ps) = (x = p \<and> startswith xs ps)"

definition endswith :: "'a list \<Rightarrow> 'a list \<Rightarrow> bool" where
  "endswith s p = startswith (rev s) (rev p)"

text \<open>\<open>sub in s\<close>: some position of \<open>s\<close> starts with \<open>sub\<close>.\<close>

fun contains :: "'a list \<Rightarrow> 'a list \<Rightarrow> bool" where
  "contains [] sub = (sub = [])"
| "contains (x # xs) sub = (startswith (x # xs) sub \<or> contains xs sub)"

text \<open>\<open>s.find(sub)\<close>: the lowest index where \<open>sub\<close> starts, or \<open>-1\<close>.\<close>

fun find_from :: "'a list \<Rightarrow> 'a list \<Rightarrow> int \<Rightarrow> int" where
  "find_from [] sub i = (if sub = [] then i else - 1)"
| "find_from (x # xs) sub i =
     (if startswith (x # xs) sub then i else find_from xs sub (i + 1))"

definition find_sub :: "'a list \<Rightarrow> 'a list \<Rightarrow> int" where
  "find_sub s sub = find_from s sub 0"

text \<open>
  \<open>s.split(sep)\<close> for a non-empty separator: the pieces between the non-overlapping
  occurrences of \<open>sep\<close>, found from the left. Python raises \<open>ValueError\<close> on an empty
  separator; \<open>split_sep\<close> is only called through \<open>split\<close>, which checks it.
\<close>

fun split_sep :: "'a list \<Rightarrow> 'a list \<Rightarrow> 'a list list" where
  "split_sep [] sep = [[]]"
| "split_sep (x # xs) sep =
     (if sep \<noteq> [] \<and> startswith (x # xs) sep
      then [] # split_sep (drop (length sep) (x # xs)) sep
      else (case split_sep xs sep of
              [] \<Rightarrow> [[x]]
            | p # ps \<Rightarrow> (x # p) # ps))"

definition split :: "'a list \<Rightarrow> 'a list \<Rightarrow> exn + 'a list list" where
  "split s sep =
     (if sep = [] then Inl (ValueError (pystr ''empty separator''))
      else Inr (split_sep s sep))"

text \<open>\<open>s.split(sep, 1)\<close>: at most one cut, at the first occurrence of \<open>sep\<close>.\<close>

fun split1_sep :: "'a list \<Rightarrow> 'a list \<Rightarrow> 'a list list" where
  "split1_sep [] sep = [[]]"
| "split1_sep (x # xs) sep =
     (if startswith (x # xs) sep
      then [[], drop (length sep) (x # xs)]
      else (case split1_sep xs sep of
              [] \<Rightarrow> [[x]]
            | p # ps \<Rightarrow> (x # p) # ps))"

definition split1 :: "'a list \<Rightarrow> 'a list \<Rightarrow> exn + 'a list list" where
  "split1 s sep =
     (if sep = [] then Inl (ValueError (pystr ''empty separator''))
      else Inr (split1_sep s sep))"

text \<open>\<open>xs[i]\<close> for a non-negative literal index.\<close>

definition index :: "'a list \<Rightarrow> nat \<Rightarrow> exn + 'a" where
  "index xs i =
     (if i < length xs then Inr (xs ! i)
      else Inl (IndexError (pystr ''list index out of range'')))"

text \<open>The code points for which \<open>str.isspace\<close> holds; \<open>str.strip()\<close> removes them.\<close>

definition isspace :: "nat \<Rightarrow> bool" where
  "isspace c \<longleftrightarrow>
     (0x09 \<le> c \<and> c \<le> 0x0D) \<or> (0x1C \<le> c \<and> c \<le> 0x20) \<or> c = 0x85 \<or> c = 0xA0 \<or>
     c = 0x1680 \<or> (0x2000 \<le> c \<and> c \<le> 0x200A) \<or> c = 0x2028 \<or> c = 0x2029 \<or>
     c = 0x202F \<or> c = 0x205F \<or> c = 0x3000"

text \<open>\<open>s.strip(chars)\<close> removes every leading and every trailing member of \<open>chars\<close>.\<close>

definition strip_by :: "('a \<Rightarrow> bool) \<Rightarrow> 'a list \<Rightarrow> 'a list" where
  "strip_by P s = rev (dropWhile P (rev (dropWhile P s)))"

definition strip :: "pystr \<Rightarrow> pystr" where
  "strip s = strip_by isspace s"

definition strip_chars :: "pystr \<Rightarrow> pystr \<Rightarrow> pystr" where
  "strip_chars s chars = strip_by (\<lambda>c. c \<in> set chars) s"

text \<open>
  \<open>s.encode()\<close>: UTF-8. A surrogate code point cannot be encoded and raises
  \<open>UnicodeEncodeError\<close>. The exception carries the reason only, where the message of
  Python also names the codec, the character and its position.
\<close>

definition encode_char :: "nat \<Rightarrow> bytes option" where
  "encode_char c =
     (if c < 0x80 then Some [char_of c]
      else if c < 0x800 then Some [char_of (0xC0 + c div 64), char_of (0x80 + c mod 64)]
      else if 0xD800 \<le> c \<and> c < 0xE000 then None
      else if c < 0x10000 then
        Some [char_of (0xE0 + c div 4096), char_of (0x80 + c div 64 mod 64),
              char_of (0x80 + c mod 64)]
      else if c < 0x110000 then
        Some [char_of (0xF0 + c div 262144), char_of (0x80 + c div 4096 mod 64),
              char_of (0x80 + c div 64 mod 64), char_of (0x80 + c mod 64)]
      else None)"

fun encode :: "pystr \<Rightarrow> exn + bytes" where
  "encode [] = Inr []"
| "encode (c # cs) =
     (case encode_char c of
        None \<Rightarrow> Inl (UnicodeEncodeError (pystr ''surrogates not allowed''))
      | Some bs \<Rightarrow> (case encode cs of Inl e \<Rightarrow> Inl e | Inr rest \<Rightarrow> Inr (bs @ rest)))"

section \<open>The multipart parser: \<open>parse_multipart_form_data\<close>\<close>

definition CRLF :: bytes where
  "CRLF = [CHR 0x0D, CHR 0x0A]"

text \<open>
  The first loop: the segments of the header are stripped in order; the first one that
  starts with \<open>boundary=\<close> gives the boundary and ends the loop. The result is the
  value of the variable \<open>boundary\<close> after the loop (\<open>None\<close> when no segment matched).
\<close>

fun find_boundary :: "pystr list \<Rightarrow> exn + pystr option" where
  "find_boundary [] = Inr None"
| "find_boundary (part # rest) =
     (let part = strip part in
      if startswith part (pystr ''boundary='') then
        (case split1 part (pystr ''='') of
           Inl e \<Rightarrow> Inl e
         | Inr ps \<Rightarrow>
             (case index ps 1 of
                Inl e \<Rightarrow> Inl e
              | Inr r \<Rightarrow> Inr (Some (strip_chars r [0x22]))))
      else find_boundary rest)"

text \<open>
  The second loop: the first part that contains both markers and the blank line gives
  the file content; a part with the markers and no blank line is passed over.
\<close>

fun scan_parts :: "bytes list \<Rightarrow> bytes option" where
  "scan_parts [] = None"
| "scan_parts (part # rest) =
     (if contains part ''Content-Disposition'' \<and> contains part ''filename'' then
        (let header_end = find_sub part (CRLF @ CRLF) in
         if header_end \<noteq> - 1 then
           (let file_content = drop (nat (header_end + 4)) part in
            if endswith file_content CRLF
            then Some (take (length file_content - 2) file_content)
            else Some file_content)
         else scan_parts rest)
      else scan_parts rest)"

text \<open>
  Lines 22 to 30: the boundary of the header, or the \<open>ValueError\<close> raised when the
  variable \<open>boundary\<close> is \<open>None\<close> or empty after the loop.
\<close>

definition extract_boundary :: "pystr \<Rightarrow> exn + pystr" where
  "extract_boundary content_type =
     (case split content_type (pystr '';'') of
        Inl e \<Rightarrow> Inl e
      | Inr segs \<Rightarrow>
          (case find_boundary segs of
             Inl e \<Rightarrow> Inl e
           | Inr None \<Rightarrow> Inl (ValueError (pystr ''No boundary found in Content-Type header''))
           | Inr (Some boundary) \<Rightarrow>
               if boundary = [] then
                 Inl (ValueError (pystr ''No boundary found in Content-Type header''))
               else Inr boundary))"

text \<open>The body of the \<open>try\<close> block: \<open>Inl\<close> is an exception raised inside it.\<close>

definition parse_multipart_try :: "bytes \<Rightarrow> pystr \<Rightarrow> exn + bytes option" where
  "parse_multipart_try body content_type =
     (case extract_boundary content_type of
        Inl e \<Rightarrow> Inl e
      | Inr boundary \<Rightarrow>
          (case encode (pystr ''--'' @ boundary) of
             Inl e \<Rightarrow> Inl e
           | Inr delim \<Rightarrow>
               (case split body delim of
                  Inl e \<Rightarrow> Inl e
                | Inr parts \<Rightarrow> Inr (scan_parts parts))))"

text \<open>
  The \<open>except Exception\<close> clause logs the exception and returns \<open>None\<close>; the log is
  not part of the model.
\<close>

definition parse_multipart_form_data :: "bytes \<Rightarrow> pystr \<Rightarrow> bytes option" where
  "parse_multipart_form_data body content_type =
     (case parse_multipart_try body content_type of
        Inl e \<Rightarrow> None
      | Inr r \<Rightarrow> r)"

section \<open>The collaborators: environment, object store, classifier\<close>

text \<open>
  The event of one invocation: a dictionary with a \<open>headers\<close> dictionary from strings to
  strings. An absent \<open>body\<close> key reads as the empty string and an absent
  \<open>isBase64Encoded\<close> key as \<open>False\<close>, the defaults of the two \<open>event.get\<close> calls. An
  event whose \<open>body\<close> is present and is not a string is outside this type.
\<close>

record event =
  headers :: "pystr \<rightharpoonup> pystr"
  body :: pystr
  isBase64Encoded :: bool

record moderation_label =
  Name :: pystr

text \<open>
  What the surroundings decide in one invocation: the environment variable, the
  identifier that \<open>uuid.uuid4()\<close> draws, the library function \<open>base64.b64decode\<close>, and for
  each service call whether it fails (and with which exception) or what it returns.
\<close>

record env =
  BUCKET_NAME :: "pystr option"
  uuid4 :: pystr
  b64decode :: "pystr \<Rightarrow> exn + bytes"
  put_object_error :: "exn option"
  detect_moderation_labels_result :: "exn + moderation_label list"
  copy_object_error :: "exn option"
  delete_object_error :: "exn option"

datatype call =
    PutObject pystr pystr bytes pystr
  | DetectModerationLabels pystr pystr nat
  | CopyObject pystr pystr pystr pystr
  | DeleteObject pystr pystr

text \<open>
  The world outside the handler: the objects of the store by bucket and key, and the
  service calls made so far, each with whether it succeeded.
\<close>

record world =
  store :: "pystr \<times> pystr \<rightharpoonup> bytes"
  calls :: "(call \<times> bool) list"

text \<open>
  Modelled from the spec: the object store and the classifier are services outside the
  repository (\<open>boto3\<close> clients). The store is the key-value blob store of the
  specification, with \<open>put\<close>, \<open>copy\<close> and \<open>delete\<close> by key; a call either fails with an
  exception and changes nothing, or succeeds and has its effect. A copy of a missing
  object fails.
\<close>

definition put_object :: "env \<Rightarrow> pystr \<Rightarrow> pystr \<Rightarrow> bytes \<Rightarrow> pystr \<Rightarrow> world \<Rightarrow> (exn + unit) \<times> world" where
  "put_object en Bucket Key Body ContentType w =
     (case put_object_error en of
        Some e \<Rightarrow> (Inl e, w\<lparr>calls := calls w @ [(PutObject Bucket Key Body ContentType, False)]\<rparr>)
      | None \<Rightarrow>
          (Inr (), w\<lparr>store := (store w)((Bucket, Key) \<mapsto> Body),
                     calls := calls w @ [(PutObject Bucket Key Body ContentType, True)]\<rparr>))"

definition detect_moderation_labels ::
  "env \<Rightarrow> pystr \<Rightarrow> pystr \<Rightarrow> nat \<Rightarrow> world \<Rightarrow> (exn + moderation_label list) \<times> world" where
  "detect_moderation_labels en Bucket Name' MinConfidence w =
     (case detect_moderation_labels_result en of
        Inl e \<Rightarrow> (Inl e, w\<lparr>calls := calls w @ [(DetectModerationLabels Bucket Name' MinConfidence, False)]\<rparr>)
      | Inr ls \<Rightarrow> (Inr ls, w\<lparr>calls := calls w @ [(DetectModerationLabels Bucket Name' MinConfidence, True)]\<rparr>))"

definition copy_object :: "env \<Rightarrow> pystr \<Rightarrow> pystr \<Rightarrow> pystr \<Rightarrow> pystr \<Rightarrow> world \<Rightarrow> (exn + unit) \<times> world" where
  "copy_object en Bucket SrcBucket SrcKey Key w =
     (case copy_object_error en of
        Some e \<Rightarrow> (Inl e, w\<lparr>calls := calls w @ [(CopyObject Bucket SrcBucket SrcKey Key, False)]\<rparr>)
      | None \<Rightarrow>
          (case store w (SrcBucket, SrcKey) of
             None \<Rightarrow>
               (Inl (ClientError (pystr ''NoSuchKey'')),
                w\<lparr>calls := calls w @ [(CopyObject Bucket SrcBucket SrcKey Key, False)]\<rparr>)
           | Some v \<Rightarrow>
               (Inr (), w\<lparr>store := (store w)((Bucket, Key) \<mapsto> v),
                          calls := calls w @ [(CopyObject Bucket SrcBucket SrcKey Key, True)]\<rparr>)))"

definition delete_object :: "env \<Rightarrow> pystr \<Rightarrow> pystr \<Rightarrow> world \<Rightarrow> (exn + unit) \<times> world" where
  "delete_object en Bucket Key w =
     (case delete_object_error en of
        Some e \<Rightarrow> (Inl e, w\<lparr>calls := calls w @ [(DeleteObject Bucket Key, False)]\<rparr>)
      | None \<Rightarrow>
          (Inr (), w\<lparr>store := (store w)((Bucket, Key) := None),
                     calls := calls w @ [(DeleteObject Bucket Key, True)]\<rparr>))"

section \<open>The handler: \<open>lambda_handler\<close>\<close>

text \<open>
  The response: the status code with the fields of the JSON body. The messages written
  to the logger and the fixed headers of the response are left out.
\<close>

datatype response =
    Response200 (file_name: pystr) (nsfw_detected: bool) (labels: "pystr list")
      (message: pystr) (final_location: pystr)
  | Response500 (error: pystr) (message: pystr)

fun statusCode :: "response \<Rightarrow> nat" where
  "statusCode (Response200 _ _ _ _ _) = 200"
| "statusCode (Response500 _ _) = 500"

text \<open>
  Line 61: \<open>headers.get('content-type') or headers.get('Content-Type')\<close>. The second
  lookup is used when the first gives \<open>None\<close> or the empty string.
\<close>

definition get_content_type :: "event \<Rightarrow> pystr option" where
  "get_content_type ev =
     (case headers ev (pystr ''content-type'') of
        None \<Rightarrow> headers ev (pystr ''Content-Type'')
      | Some v \<Rightarrow> if v = [] then headers ev (pystr ''Content-Type'') else Some v)"

text \<open>Lines 65 to 69: the body as bytes.\<close>

definition decode_body :: "env \<Rightarrow> event \<Rightarrow> exn + bytes" where
  "decode_body en ev =
     (if isBase64Encoded ev then b64decode en (body ev) else encode (body ev))"

text \<open>
  Lines 77 to 137, from the identifier to the response, for a bucket and the file
  content. Each service call that raises ends the run with its exception.
\<close>

definition process_image :: "env \<Rightarrow> pystr \<Rightarrow> bytes \<Rightarrow> world \<Rightarrow> (exn + response) \<times> world" where
  "process_image en bucket_name image_data w =
     (let image_id = uuid4 en @ pystr ''.jpg'';
          temp_key = pystr ''uploads/'' @ image_id
      in case put_object en bucket_name temp_key image_data (pystr ''image/jpeg'') w of
           (Inl e, w1) \<Rightarrow> (Inl e, w1)
         | (Inr _, w1) \<Rightarrow>
      (case detect_moderation_labels en bucket_name temp_key 70 w1 of
           (Inl e, w2) \<Rightarrow> (Inl e, w2)
         | (Inr response, w2) \<Rightarrow>
      (let labels = map Name response;
           nsfw_detected = (labels \<noteq> []);
           final_key = (if nsfw_detected then pystr ''nsfw'' else pystr ''safe'') @ pystr ''/'' @ image_id
       in case copy_object en bucket_name bucket_name temp_key final_key w2 of
            (Inl e, w3) \<Rightarrow> (Inl e, w3)
          | (Inr _, w3) \<Rightarrow>
      (case delete_object en bucket_name temp_key w3 of
            (Inl e, w4) \<Rightarrow> (Inl e, w4)
          | (Inr _, w4) \<Rightarrow>
              (Inr (Response200 image_id nsfw_detected labels
                     (pystr ''Image moved to '' @
                      (if nsfw_detected then pystr ''nsfw'' else pystr ''safe'') @ pystr '' folder'')
                     final_key),
               w4)))))"

text \<open>The body of the handler \<open>try\<close> block.\<close>

definition lambda_handler_try :: "env \<Rightarrow> event \<Rightarrow> world \<Rightarrow> (exn + response) \<times> world" where
  "lambda_handler_try en ev w =
     (case BUCKET_NAME en of
        None \<Rightarrow> (Inl (ValueError (pystr ''BUCKET_NAME environment variable not set'')), w)
      | Some bucket_name \<Rightarrow>
          if bucket_name = [] then
            (Inl (ValueError (pystr ''BUCKET_NAME environment variable not set'')), w)
          else
     (case get_content_type ev of
        None \<Rightarrow> (Inl (ValueError (pystr ''Missing Content-Type header'')), w)
      | Some content_type \<Rightarrow>
          if content_type = [] then
            (Inl (ValueError (pystr ''Missing Content-Type header'')), w)
          else
     (case decode_body en ev of
        Inl e \<Rightarrow> (Inl e, w)
      | Inr body' \<Rightarrow>
     (case parse_multipart_form_data body' content_type of
        None \<Rightarrow> (Inl (ValueError (pystr ''No file found in multipart/form-data payload'')), w)
      | Some image_data \<Rightarrow>
          if image_data = [] then
            (Inl (ValueError (pystr ''No file found in multipart/form-data payload'')), w)
          else process_image en bucket_name image_data w))))"

text \<open>The \<open>except Exception\<close> clause turns every exception into the 500 response.\<close>

definition lambda_handler :: "env \<Rightarrow> event \<Rightarrow> world \<Rightarrow> response \<times> world" where
  "lambda_handler en ev w =
     (case lambda_handler_try en ev w of
        (Inl e, w') \<Rightarrow> (Response500 (str_exn e) (pystr ''Failed to process image''), w')
      | (Inr r, w') \<Rightarrow> (r, w'))"

section \<open>The boundary token as the specification words it\<close>

text \<open>
  The specification strips one leading and one trailing double quote from the remainder
  of the segment. \<open>strip_one_quote_spec\<close> follows these words, for comparison with the
  \<open>strip_chars\<close> of the source.
\<close>

definition strip_one_quote_spec :: "pystr \<Rightarrow> pystr" where
  "strip_one_quote_spec s =
     (let s1 = (if s \<noteq> [] \<and> hd s = 0x22 then tl s else s)
      in if s1 \<noteq> [] \<and> last s1 = 0x22 then butlast s1 else s1)"

section \<open>Example inputs\<close>

text \<open>
  A header with the boundary \<open>b\<close>, and a body with one file part whose content is
  \<open>DATA\<close>, followed by the closing delimiter.
\<close>

definition example_content_type :: pystr where
  "example_content_type = pystr ''multipart/form-data; boundary=b''"

definition example_header :: bytes where
  "example_header = CRLF @ ''Content-Disposition: form-data; name=f; filename=a.jpg''"

definition example_part :: bytes where
  "example_part = example_header @ CRLF @ CRLF @ ''DATA'' @ CRLF"

definition example_body :: bytes where
  "example_body = ''--b'' @ example_part @ ''--b--'' @ CRLF"

text \<open>A body whose only part is a form field without a file name.\<close>

definition example_field_body :: bytes where
  "example_field_body =
     ''--b'' @ CRLF @ ''Content-Disposition: form-data; name=f'' @ CRLF @ CRLF @ ''v'' @ CRLF @
     ''--b--'' @ CRLF"

text \<open>A body whose file part has an empty content.\<close>

definition example_empty_file_body :: bytes where
  "example_empty_file_body = ''--b'' @ example_header @ CRLF @ CRLF @ CRLF @ ''--b--'' @ CRLF"

text \<open>A body that has the markers and the blank line before any delimiter.\<close>

definition example_filler_body :: bytes where
  "example_filler_body = ''Content-Disposition: filename'' @ CRLF @ CRLF @ ''DATA''"

text \<open>
  An environment in which every service call succeeds and the classifier returns the
  given labels; an event that carries a body as text, not base64; a world with an empty
  store and no calls.
\<close>

definition example_env :: "moderation_label list \<Rightarrow> env" where
  "example_env ls =
     \<lparr>BUCKET_NAME = Some (pystr ''bucket''), uuid4 = pystr ''id'',
      b64decode = (\<lambda>s. Inl (ValueError (pystr ''Incorrect padding''))),
      put_object_error = None, detect_moderation_labels_result = Inr ls,
      copy_object_error = None, delete_object_error = None\<rparr>"

definition example_event :: "pystr \<Rightarrow> bytes \<Rightarrow> event" where
  "example_event content_type body' =
     \<lparr>headers = [pystr ''content-type'' \<mapsto> content_type], body = pystr body',
      isBase64Encoded = False\<rparr>"

definition empty_world :: world where
  "empty_world = \<lparr>store = Map.empty, calls = []\<rparr>"

text \<open>
  The run of the handler on the example body, with the classifier returning the given
  labels; and the same run when the copy fails.
\<close>

definition example_label :: moderation_label where
  "example_label = \<lparr>Name = pystr ''Explicit Nudity''\<rparr>"

definition example_run :: "moderation_label list \<Rightarrow> response \<times> world" where
  "example_run ls =
     lambda_handler (example_env ls) (example_event example_content_type example_body) empty_world"

definition example_copy_fails_env :: env where
  "example_copy_fails_env =
     (example_env [])\<lparr>copy_object_error := Some (ClientError (pystr ''AccessDenied''))\<rparr>"

definition example_failed_run :: "response \<times> world" where
  "example_failed_run =
     lambda_handler example_copy_fails_env (example_event example_content_type example_body)
       empty_world"

section \<open>Properties of the sequence primitives\<close>

lemma startswith_iff_prefix: "startswith s p \<longleftrightarrow> prefix p s"
  by (induction s p rule: startswith.induct) auto

lemma endswith_iff_suffix: "endswith s p \<longleftrightarrow> suffix p s"
  by (simp add: endswith_def startswith_iff_prefix suffix_to_prefix)

lemma contains_iff_sublist: "contains s sub \<longleftrightarrow> sublist sub s"
  by (induction s) (auto simp: startswith_iff_prefix sublist_Cons_right)

lemma find_from_none: "0 \<le> i \<Longrightarrow> find_from s sub i = - 1 \<longleftrightarrow> \<not> contains s sub"
  by (induction s arbitrary: i) auto

lemma find_from_first:
  "k \<le> length s \<Longrightarrow> prefix sub (drop k s) \<Longrightarrow> \<forall>j<k. \<not> prefix sub (drop j s) \<Longrightarrow>
   find_from s sub i = i + int k"
proof (induction s arbitrary: k i)
  case Nil
  then show ?case by simp
next
  case (Cons x xs)
  show ?case
  proof (cases k)
    case 0
    with Cons.prems show ?thesis by (simp add: startswith_iff_prefix)
  next
    case (Suc k')
    from Cons.prems Suc have nohead: "\<not> prefix sub (x # xs)"
      by (metis drop0 zero_less_Suc)
    have le: "k' \<le> length xs" using Cons.prems Suc by simp
    have pre: "prefix sub (drop k' xs)" using Cons.prems Suc by simp
    have rest: "\<forall>j<k'. \<not> prefix sub (drop j xs)"
    proof (intro allI impI)
      fix j assume "j < k'"
      then have "Suc j < k" using Suc by simp
      with Cons.prems have "\<not> prefix sub (drop (Suc j) (x # xs))" by blast
      then show "\<not> prefix sub (drop j xs)" by simp
    qed
    have "find_from xs sub (i + 1) = i + 1 + int k'"
      by (rule Cons.IH [OF le pre rest])
    with nohead Suc show ?thesis by (simp add: startswith_iff_prefix)
  qed
qed

lemma find_sub_none: "find_sub s sub = - 1 \<longleftrightarrow> \<not> sublist sub s"
  by (simp add: find_sub_def find_from_none contains_iff_sublist)

lemma find_sub_first:
  "\<forall>j<length hdr. \<not> prefix sub (drop j (hdr @ sub @ rest)) \<Longrightarrow>
   find_sub (hdr @ sub @ rest) sub = int (length hdr)"
  unfolding find_sub_def
  using find_from_first [of "length hdr" "hdr @ sub @ rest" sub 0] by simp

lemma encode_nonempty: "encode (c # cs) = Inr d \<Longrightarrow> d \<noteq> []"
  by (auto simp: encode_char_def split: option.splits sum.splits if_splits)

lemma encode_ascii: "\<forall>c\<in>set s. of_char c < (128::nat) \<Longrightarrow> encode (pystr s) = Inr s"
  by (induction s) (auto simp: pystr_def encode_char_def)

lemma rev_dropWhile_split: "t = rev (dropWhile P (rev t)) @ rev (takeWhile P (rev t))"
  by (metis rev_append rev_rev_ident takeWhile_dropWhile_id)

lemma strip_by_decomp:
  "\<exists>a b. s = a @ strip_by P s @ b \<and> (\<forall>x\<in>set a. P x) \<and> (\<forall>x\<in>set b. P x)"
proof -
  let ?t = "dropWhile P s"
  have 1: "s = takeWhile P s @ ?t" by simp
  have 2: "?t = strip_by P s @ rev (takeWhile P (rev ?t))"
    unfolding strip_by_def by (rule rev_dropWhile_split)
  have 3: "\<forall>x\<in>set (takeWhile P s). P x" by (auto dest: set_takeWhileD)
  have 4: "\<forall>x\<in>set (rev (takeWhile P (rev ?t))). P x" by (auto dest: set_takeWhileD)
  from 1 2 have "s = takeWhile P s @ strip_by P s @ rev (takeWhile P (rev ?t))" by metis
  with 3 4 show ?thesis by blast
qed

lemma strip_by_ends:
  assumes "strip_by P s \<noteq> []"
  shows "\<not> P (hd (strip_by P s))" and "\<not> P (last (strip_by P s))"
proof -
  let ?t = "dropWhile P s"
  let ?u = "dropWhile P (rev ?t)"
  from assms have u: "?u \<noteq> []" by (simp add: strip_by_def)
  then have "\<not> P (hd ?u)" by (rule hd_dropWhile)
  moreover have "last (strip_by P s) = hd ?u" using u by (simp add: strip_by_def last_rev)
  ultimately show "\<not> P (last (strip_by P s))" by simp
  have t: "?t \<noteq> []"
  proof
    assume "?t = []"
    with u show False by (metis dropWhile.simps(1) rev.simps(1))
  qed
  then have nP: "\<not> P (hd ?t)" by (rule hd_dropWhile)
  have "?t = strip_by P s @ rev (takeWhile P (rev ?t))"
    unfolding strip_by_def by (rule rev_dropWhile_split)
  then have "hd ?t = hd (strip_by P s)" using assms by (metis hd_append2)
  with nP show "\<not> P (hd (strip_by P s))" by simp
qed

section \<open>Properties of the two loops of the parser\<close>

lemma split1_boundary:
  "split1 (pystr ''boundary='' @ r) (pystr ''='') = Inr [pystr ''boundary'', r]"
  by (simp add: split1_def pystr_def)

lemma boundary_segment:
  assumes "prefix (pystr ''boundary='') part"
  shows "part = pystr ''boundary='' @ drop 9 part"
proof -
  from assms obtain r where r: "part = pystr ''boundary='' @ r" by (auto simp: prefix_def)
  have "length (pystr ''boundary='') = 9" by (simp add: pystr_def)
  with r show ?thesis by simp
qed

lemma find_boundary_hit:
  assumes "prefix (pystr ''boundary='') (strip part)"
  shows "find_boundary (part # rest) = Inr (Some (strip_chars (drop 9 (strip part)) [0x22]))"
proof -
  have sw: "startswith (strip part) (pystr ''boundary='')"
    using assms by (simp add: startswith_iff_prefix)
  have "split1 (strip part) (pystr ''='') = Inr [pystr ''boundary'', drop 9 (strip part)]"
    using boundary_segment [OF assms] split1_boundary [of "drop 9 (strip part)"] by simp
  with sw show ?thesis by (simp add: index_def)
qed

lemma find_boundary_miss:
  "\<not> prefix (pystr ''boundary='') (strip part) \<Longrightarrow> find_boundary (part # rest) = find_boundary rest"
  by (simp add: startswith_iff_prefix)

lemma find_boundary_none:
  "\<forall>seg\<in>set segs. \<not> prefix (pystr ''boundary='') (strip seg) \<Longrightarrow> find_boundary segs = Inr None"
  by (induction segs) (simp_all add: startswith_iff_prefix)

lemma find_boundary_first:
  "i < length segs \<Longrightarrow> prefix (pystr ''boundary='') (strip (segs ! i)) \<Longrightarrow>
   \<forall>j<i. \<not> prefix (pystr ''boundary='') (strip (segs ! j)) \<Longrightarrow>
   find_boundary segs = Inr (Some (strip_chars (drop 9 (strip (segs ! i))) [0x22]))"
proof (induction segs arbitrary: i)
  case Nil
  then show ?case by simp
next
  case (Cons seg segs)
  show ?case
  proof (cases i)
    case 0
    with Cons.prems show ?thesis using find_boundary_hit [of seg segs] by simp
  next
    case (Suc i')
    with Cons.prems have miss: "\<not> prefix (pystr ''boundary='') (strip seg)" by auto
    have rest: "\<forall>j<i'. \<not> prefix (pystr ''boundary='') (strip (segs ! j))"
    proof (intro allI impI)
      fix j assume "j < i'"
      then have "Suc j < i" using Suc by simp
      with Cons.prems have "\<not> prefix (pystr ''boundary='') (strip ((seg # segs) ! Suc j))" by blast
      then show "\<not> prefix (pystr ''boundary='') (strip (segs ! j))" by simp
    qed
    have "find_boundary segs = Inr (Some (strip_chars (drop 9 (strip (segs ! i'))) [0x22]))"
      using Cons.IH [of i'] Cons.prems Suc rest by simp
    with Suc show ?thesis using find_boundary_miss [OF miss, of segs] by simp
  qed
qed

lemma scan_parts_miss:
  "\<not> (sublist ''Content-Disposition'' p \<and> sublist ''filename'' p \<and> sublist (CRLF @ CRLF) p) \<Longrightarrow>
   scan_parts (p # rest) = scan_parts rest"
  using find_sub_none [of p "CRLF @ CRLF"]
  by (auto simp: contains_iff_sublist Let_def)

lemma scan_parts_hit:
  assumes "sublist ''Content-Disposition'' (hdr @ CRLF @ CRLF @ payload)"
      and "sublist ''filename'' (hdr @ CRLF @ CRLF @ payload)"
      and "\<forall>j<length hdr. \<not> prefix (CRLF @ CRLF) (drop j (hdr @ CRLF @ CRLF @ payload))"
  shows "scan_parts ((hdr @ CRLF @ CRLF @ payload) # rest) =
         Some (if suffix CRLF payload then take (length payload - 2) payload else payload)"
proof -
  have f: "find_sub (hdr @ CRLF @ CRLF @ payload) (CRLF @ CRLF) = int (length hdr)"
    using find_sub_first [of hdr "CRLF @ CRLF" payload] assms(3) by simp
  have d: "drop (nat (int (length hdr) + 4)) (hdr @ CRLF @ CRLF @ payload) = payload"
    by (simp add: CRLF_def nat_add_distrib)
  show ?thesis
    using assms(1,2)
    by (simp only: scan_parts.simps contains_iff_sublist f d Let_def endswith_iff_suffix)
       simp
qed

lemma scan_parts_none:
  "\<forall>p\<in>set parts. \<not> (sublist ''Content-Disposition'' p \<and> sublist ''filename'' p \<and> sublist (CRLF @ CRLF) p) \<Longrightarrow>
   scan_parts parts = None"
proof (induction parts)
  case Nil
  then show ?case by simp
next
  case (Cons p ps)
  then show ?case using scan_parts_miss [of p ps] by simp
qed

lemma scan_parts_append_miss:
  "\<forall>q\<in>set before. \<not> (sublist ''Content-Disposition'' q \<and> sublist ''filename'' q \<and> sublist (CRLF @ CRLF) q) \<Longrightarrow>
   scan_parts (before @ rest) = scan_parts rest"
proof (induction before)
  case Nil
  then show ?case by simp
next
  case (Cons q qs)
  then show ?case using scan_parts_miss [of q "qs @ rest"] by simp
qed

lemma prefix_short:
  assumes "prefix xs (ys @ zs)" and "length xs \<le> length ys"
  shows "prefix xs ys"
  using assms prefix_length_prefix [of xs "ys @ zs" ys] by simp

lemma no_early_occurrence:
  assumes ne: "sub \<noteq> []"
      and no: "\<not> sublist sub (hdr @ butlast sub)"
      and j: "j < length hdr"
  shows "\<not> prefix sub (drop j (hdr @ sub @ rest))"
proof
  assume pre: "prefix sub (drop j (hdr @ sub @ rest))"
  have sub: "sub = butlast sub @ [last sub]" using ne by simp
  have "drop j (hdr @ sub @ rest) = drop j hdr @ sub @ rest" using j by simp
  also have "\<dots> = (drop j hdr @ butlast sub) @ ([last sub] @ rest)"
    using sub by (metis append.assoc)
  finally have eq: "drop j (hdr @ sub @ rest) = (drop j hdr @ butlast sub) @ ([last sub] @ rest)" .
  have len: "length sub \<le> length (drop j hdr @ butlast sub)"
    using j ne by (cases sub) auto
  from pre eq have "prefix sub ((drop j hdr @ butlast sub) @ ([last sub] @ rest))" by simp
  then have p: "prefix sub (drop j hdr @ butlast sub)" using len by (rule prefix_short)
  have "suffix (drop j hdr @ butlast sub) (hdr @ butlast sub)"
    by (metis append.assoc append_take_drop_id suffixI)
  with p have "sublist sub (hdr @ butlast sub)" unfolding sublist_altdef' by blast
  with no show False by contradiction
qed

lemma find_sub_at_header_end:
  "sub \<noteq> [] \<Longrightarrow> \<not> sublist sub (hdr @ butlast sub) \<Longrightarrow>
   find_sub (hdr @ sub @ rest) sub = int (length hdr)"
  using find_sub_first [of hdr sub rest] no_early_occurrence [of sub hdr _ rest] by blast

lemma scan_parts_target:
  assumes "sublist ''Content-Disposition'' (hdr @ CRLF @ CRLF @ payload)"
      and "sublist ''filename'' (hdr @ CRLF @ CRLF @ payload)"
      and "\<not> sublist (CRLF @ CRLF) (hdr @ butlast (CRLF @ CRLF))"
  shows "scan_parts ((hdr @ CRLF @ CRLF @ payload) # rest) =
         Some (if suffix CRLF payload then take (length payload - 2) payload else payload)"
proof -
  have ne: "CRLF @ CRLF \<noteq> []" by (simp add: CRLF_def)
  have "\<forall>j<length hdr. \<not> prefix (CRLF @ CRLF) (drop j (hdr @ (CRLF @ CRLF) @ payload))"
    using no_early_occurrence [OF ne assms(3)] by blast
  then show ?thesis using scan_parts_hit [OF assms(1,2)] by simp
qed

lemma delimiter_nonempty: "encode (pystr ''--'' @ boundary) = Inr delim \<Longrightarrow> delim \<noteq> []"
  using encode_nonempty [of 45 "45 # boundary" delim] by (simp add: pystr_def)

lemma parse_with_boundary:
  assumes "extract_boundary content_type = Inr boundary"
      and "encode (pystr ''--'' @ boundary) = Inr delim"
  shows "parse_multipart_form_data body' content_type = scan_parts (split_sep body' delim)"
  using assms delimiter_nonempty [OF assms(2)]
  by (simp add: parse_multipart_form_data_def parse_multipart_try_def split_def)

lemma extract_boundary_missing:
  assumes "\<forall>seg\<in>set (split_sep content_type (pystr '';'')). \<not> prefix (pystr ''boundary='') (strip seg)"
  shows "extract_boundary content_type =
         Inl (ValueError (pystr ''No boundary found in Content-Type header''))"
proof -
  have "split content_type (pystr '';'') = Inr (split_sep content_type (pystr '';''))"
    by (simp add: split_def pystr_def)
  then show ?thesis using find_boundary_none [OF assms] by (simp add: extract_boundary_def)
qed

lemma strip_suffix_crlf:
  "(if suffix CRLF (r @ CRLF) then take (length (r @ CRLF) - 2) (r @ CRLF) else r @ CRLF) = r"
proof -
  have "suffix CRLF (r @ CRLF)" by (simp add: suffix_def)
  moreover have "length CRLF = 2" by (simp add: CRLF_def)
  ultimately show ?thesis by simp
qed

section \<open>The example inputs, evaluated\<close>

lemma example_boundary: "extract_boundary example_content_type = Inr (pystr ''b'')"
  by (simp add: extract_boundary_def example_content_type_def split_def pystr_def strip_def
      strip_by_def isspace_def split1_def index_def strip_chars_def)

lemma example_delimiter: "encode (pystr ''--'' @ pystr ''b'') = Inr ''--b''"
  using encode_ascii [of "''--b''"] by (simp add: pystr_def)

lemma example_split:
  "split_sep example_body ''--b'' = [[], example_part, ''--'' @ CRLF]"
  by (simp add: example_body_def example_part_def example_header_def CRLF_def)

lemma example_markers:
  "sublist ''Content-Disposition'' example_part" "sublist ''filename'' example_part"
  "\<not> sublist (CRLF @ CRLF) (example_header @ butlast (CRLF @ CRLF))"
  unfolding contains_iff_sublist [symmetric]
  by (simp_all add: example_part_def example_header_def CRLF_def)

lemma example_others:
  "\<not> sublist ''filename'' []" "\<not> sublist ''filename'' (''--'' @ CRLF)"
  unfolding contains_iff_sublist [symmetric]
  by (simp_all add: CRLF_def)

lemma example_field_split:
  "split_sep example_field_body ''--b'' =
     [[], CRLF @ ''Content-Disposition: form-data; name=f'' @ CRLF @ CRLF @ ''v'' @ CRLF, ''--'' @ CRLF]"
  by (simp add: example_field_body_def CRLF_def)

lemma example_field_none:
  "\<not> sublist ''filename'' (CRLF @ ''Content-Disposition: form-data; name=f'' @ CRLF @ CRLF @ ''v'' @ CRLF)"
  unfolding contains_iff_sublist [symmetric]
  by (simp add: CRLF_def)

lemma example_empty_file_split:
  "split_sep example_empty_file_body ''--b'' = [[], example_header @ CRLF @ CRLF @ CRLF, ''--'' @ CRLF]"
  by (simp add: example_empty_file_body_def example_header_def CRLF_def)

lemma example_empty_file_markers:
  "sublist ''Content-Disposition'' (example_header @ CRLF @ CRLF @ CRLF)"
  "sublist ''filename'' (example_header @ CRLF @ CRLF @ CRLF)"
  unfolding contains_iff_sublist [symmetric]
  by (simp_all add: example_header_def CRLF_def)

lemma example_filler_split: "split_sep example_filler_body ''--b'' = [example_filler_body]"
  by (simp add: example_filler_body_def CRLF_def)

lemma example_filler_markers:
  "sublist ''Content-Disposition'' example_filler_body" "sublist ''filename'' example_filler_body"
  "\<not> sublist (CRLF @ CRLF) (''Content-Disposition: filename'' @ butlast (CRLF @ CRLF))"
  unfolding contains_iff_sublist [symmetric]
  by (simp_all add: example_filler_body_def CRLF_def)

section \<open>The outcomes of the handler\<close>

lemma handler_reaches_parser:
  assumes "BUCKET_NAME en = Some bucket_name" and "bucket_name \<noteq> []"
      and "get_content_type ev = Some content_type" and "content_type \<noteq> []"
      and "decode_body en ev = Inr body'"
  shows "lambda_handler_try en ev w =
         (case parse_multipart_form_data body' content_type of
            None \<Rightarrow> (Inl (ValueError (pystr ''No file found in multipart/form-data payload'')), w)
          | Some image_data \<Rightarrow>
              if image_data = [] then
                (Inl (ValueError (pystr ''No file found in multipart/form-data payload'')), w)
              else process_image en bucket_name image_data w)"
  using assms by (simp add: lambda_handler_try_def)

lemma lambda_handler_try_cases:
  assumes "lambda_handler_try en ev w = (r, w')"
  shows "(\<exists>e. r = Inl e \<and> w' = w) \<or>
         (\<exists>bucket_name content_type body' image_data.
            BUCKET_NAME en = Some bucket_name \<and> bucket_name \<noteq> [] \<and>
            get_content_type ev = Some content_type \<and> content_type \<noteq> [] \<and>
            decode_body en ev = Inr body' \<and>
            parse_multipart_form_data body' content_type = Some image_data \<and> image_data \<noteq> [] \<and>
            process_image en bucket_name image_data w = (r, w'))"
  using assms unfolding lambda_handler_try_def
  by (auto split: option.splits sum.splits if_splits)

lemma process_image_put_failed:
  assumes "put_object_error en = Some e"
  shows "process_image en bucket_name image_data w =
         (Inl e,
          w\<lparr>calls := calls w @
             [(PutObject bucket_name (pystr ''uploads/'' @ uuid4 en @ pystr ''.jpg'') image_data
                 (pystr ''image/jpeg''), False)]\<rparr>)"
  using assms by (simp add: process_image_def put_object_def Let_def)

lemma process_image_detect_failed:
  assumes "put_object_error en = None" and "detect_moderation_labels_result en = Inl e"
  shows "process_image en bucket_name image_data w =
         (Inl e,
          w\<lparr>store := (store w)((bucket_name, pystr ''uploads/'' @ uuid4 en @ pystr ''.jpg'') \<mapsto> image_data),
            calls := calls w @
             [(PutObject bucket_name (pystr ''uploads/'' @ uuid4 en @ pystr ''.jpg'') image_data
                 (pystr ''image/jpeg''), True),
              (DetectModerationLabels bucket_name (pystr ''uploads/'' @ uuid4 en @ pystr ''.jpg'') 70,
                 False)]\<rparr>)"
  using assms
  by (simp add: process_image_def put_object_def detect_moderation_labels_def Let_def)

lemma process_image_copy_failed:
  assumes "put_object_error en = None" and "detect_moderation_labels_result en = Inr ls"
      and "copy_object_error en = Some e"
  shows "process_image en bucket_name image_data w =
         (Inl e,
          w\<lparr>store := (store w)((bucket_name, pystr ''uploads/'' @ uuid4 en @ pystr ''.jpg'') \<mapsto> image_data),
            calls := calls w @
             [(PutObject bucket_name (pystr ''uploads/'' @ uuid4 en @ pystr ''.jpg'') image_data
                 (pystr ''image/jpeg''), True),
              (DetectModerationLabels bucket_name (pystr ''uploads/'' @ uuid4 en @ pystr ''.jpg'') 70,
                 True),
              (CopyObject bucket_name bucket_name (pystr ''uploads/'' @ uuid4 en @ pystr ''.jpg'')
                 ((if map Name ls \<noteq> [] then pystr ''nsfw'' else pystr ''safe'') @ pystr ''/'' @
                  uuid4 en @ pystr ''.jpg''), False)]\<rparr>)"
  using assms
  by (simp add: process_image_def put_object_def detect_moderation_labels_def copy_object_def
      Let_def)

lemma keys_differ:
  "(if flagged then pystr ''nsfw'' else pystr ''safe'') @ pystr ''/'' @ image_id \<noteq>
   pystr ''uploads/'' @ image_id"
  by (simp add: pystr_def)

lemma process_image_delete_failed:
  assumes "put_object_error en = None" and "detect_moderation_labels_result en = Inr ls"
      and "copy_object_error en = None" and "delete_object_error en = Some e"
  shows "process_image en bucket_name image_data w =
         (Inl e,
          w\<lparr>store := (store w)
               ((bucket_name, pystr ''uploads/'' @ uuid4 en @ pystr ''.jpg'') \<mapsto> image_data,
                (bucket_name, (if map Name ls \<noteq> [] then pystr ''nsfw'' else pystr ''safe'') @
                   pystr ''/'' @ uuid4 en @ pystr ''.jpg'') \<mapsto> image_data),
            calls := calls w @
             [(PutObject bucket_name (pystr ''uploads/'' @ uuid4 en @ pystr ''.jpg'') image_data
                 (pystr ''image/jpeg''), True),
              (DetectModerationLabels bucket_name (pystr ''uploads/'' @ uuid4 en @ pystr ''.jpg'') 70,
                 True),
              (CopyObject bucket_name bucket_name (pystr ''uploads/'' @ uuid4 en @ pystr ''.jpg'')
                 ((if map Name ls \<noteq> [] then pystr ''nsfw'' else pystr ''safe'') @ pystr ''/'' @
                  uuid4 en @ pystr ''.jpg''), True),
              (DeleteObject bucket_name (pystr ''uploads/'' @ uuid4 en @ pystr ''.jpg''), False)]\<rparr>)"
  using assms
  by (simp add: process_image_def put_object_def detect_moderation_labels_def copy_object_def
      delete_object_def Let_def)

lemma process_image_success:
  assumes "put_object_error en = None" and "detect_moderation_labels_result en = Inr ls"
      and "copy_object_error en = None" and "delete_object_error en = None"
  shows "process_image en bucket_name image_data w =
         (Inr (Response200 (uuid4 en @ pystr ''.jpg'') (map Name ls \<noteq> []) (map Name ls)
                 (pystr ''Image moved to '' @
                  (if map Name ls \<noteq> [] then pystr ''nsfw'' else pystr ''safe'') @ pystr '' folder'')
                 ((if map Name ls \<noteq> [] then pystr ''nsfw'' else pystr ''safe'') @ pystr ''/'' @
                  uuid4 en @ pystr ''.jpg'')),
          w\<lparr>store := ((store w)
               ((bucket_name, pystr ''uploads/'' @ uuid4 en @ pystr ''.jpg'') \<mapsto> image_data,
                (bucket_name, (if map Name ls \<noteq> [] then pystr ''nsfw'' else pystr ''safe'') @
                   pystr ''/'' @ uuid4 en @ pystr ''.jpg'') \<mapsto> image_data))
               ((bucket_name, pystr ''uploads/'' @ uuid4 en @ pystr ''.jpg'') := None),
            calls := calls w @
             [(PutObject bucket_name (pystr ''uploads/'' @ uuid4 en @ pystr ''.jpg'') image_data
                 (pystr ''image/jpeg''), True),
              (DetectModerationLabels bucket_name (pystr ''uploads/'' @ uuid4 en @ pystr ''.jpg'') 70,
                 True),
              (CopyObject bucket_name bucket_name (pystr ''uploads/'' @ uuid4 en @ pystr ''.jpg'')
                 ((if map Name ls \<noteq> [] then pystr ''nsfw'' else pystr ''safe'') @ pystr ''/'' @
                  uuid4 en @ pystr ''.jpg''), True),
              (DeleteObject bucket_name (pystr ''uploads/'' @ uuid4 en @ pystr ''.jpg''), True)]\<rparr>)"
  using assms
  by (simp add: process_image_def put_object_def detect_moderation_labels_def copy_object_def
      delete_object_def Let_def)

section \<open>Properties of the quote stripping\<close>

lemma all_same_replicate: "\<forall>x\<in>set a. x \<in> set [c] \<Longrightarrow> a = replicate (length a) c"
  by (induction a) auto

lemma strip_chars_quotes:
  "\<exists>n m. r = replicate n 34 @ strip_chars r [34] @ replicate m 34"
proof -
  obtain a b where ab: "r = a @ strip_chars r [34] @ b"
      "\<forall>x\<in>set a. x \<in> set [34]" "\<forall>x\<in>set b. x \<in> set [34]"
    using strip_by_decomp [of r "\<lambda>c. c \<in> set [34]"] unfolding strip_chars_def by blast
  have "a = replicate (length a) 34" "b = replicate (length b) 34"
    using ab(2,3) by (auto intro: all_same_replicate)
  with ab(1) show ?thesis by metis
qed

lemma strip_chars_quotes_ends:
  "strip_chars r [34] \<noteq> [] \<Longrightarrow> hd (strip_chars r [34]) \<noteq> 34 \<and> last (strip_chars r [34]) \<noteq> 34"
  using strip_by_ends [of "\<lambda>c. c \<in> set [34]" r] unfolding strip_chars_def by simp

section \<open>The claims about the parser\<close>

text \<open>
  Claim C3. When the header gives a boundary and exactly one part of the split body
  contains both markers and the blank line \<open>CRLF CRLF\<close>, the parser returns that part's
  content: everything after the first \<open>CRLF CRLF\<close> of the part (no \<open>CRLF CRLF\<close> starts
  inside \<open>hdr\<close>), without one trailing \<open>CRLF\<close> if there is one.
\<close>

theorem extract_single_file_part:
  assumes "extract_boundary content_type = Inr boundary"
      and "encode (pystr ''--'' @ boundary) = Inr delim"
      and "split_sep body' delim = pre @ [hdr @ CRLF @ CRLF @ payload] @ post"
      and "sublist ''Content-Disposition'' (hdr @ CRLF @ CRLF @ payload)"
      and "sublist ''filename'' (hdr @ CRLF @ CRLF @ payload)"
      and "\<not> sublist (CRLF @ CRLF) (hdr @ butlast (CRLF @ CRLF))"
      and "\<forall>q\<in>set (pre @ post).
             \<not> (sublist ''Content-Disposition'' q \<and> sublist ''filename'' q \<and> sublist (CRLF @ CRLF) q)"
  shows "(\<forall>r. payload = r @ CRLF \<longrightarrow> parse_multipart_form_data body' content_type = Some r) \<and>
         (\<not> suffix CRLF payload \<longrightarrow> parse_multipart_form_data body' content_type = Some payload)"
proof -
  have pre: "\<forall>q\<in>set pre.
      \<not> (sublist ''Content-Disposition'' q \<and> sublist ''filename'' q \<and> sublist (CRLF @ CRLF) q)"
    using assms(7) by simp
  have "parse_multipart_form_data body' content_type =
        scan_parts (pre @ (hdr @ CRLF @ CRLF @ payload) # post)"
    using parse_with_boundary [OF assms(1,2)] assms(3) by simp
  also have "\<dots> = scan_parts ((hdr @ CRLF @ CRLF @ payload) # post)"
    by (rule scan_parts_append_miss [OF pre])
  also have "\<dots> = Some (if suffix CRLF payload then take (length payload - 2) payload else payload)"
    by (rule scan_parts_target [OF assms(4,5,6)])
  finally have res: "parse_multipart_form_data body' content_type =
      Some (if suffix CRLF payload then take (length payload - 2) payload else payload)" .
  show ?thesis
  proof (intro conjI allI impI)
    fix r assume pr: "payload = r @ CRLF"
    from res have "parse_multipart_form_data body' content_type =
        Some (if suffix CRLF (r @ CRLF) then take (length (r @ CRLF) - 2) (r @ CRLF) else r @ CRLF)"
      by (simp only: pr)
    then show "parse_multipart_form_data body' content_type = Some r"
      by (simp only: strip_suffix_crlf)
  next
    assume "\<not> suffix CRLF payload"
    with res show "parse_multipart_form_data body' content_type = Some payload" by simp
  qed
qed

text \<open>The example body has one file part, with the content \<open>DATA\<close>.\<close>

theorem extract_single_file_part_witness:
  "split_sep example_body ''--b'' = [[]] @ [example_header @ CRLF @ CRLF @ (''DATA'' @ CRLF)] @ [''--'' @ CRLF] \<and>
   parse_multipart_form_data example_body example_content_type = Some ''DATA''"
proof -
  have s: "split_sep example_body ''--b'' =
      [[]] @ [example_header @ CRLF @ CRLF @ (''DATA'' @ CRLF)] @ [''--'' @ CRLF]"
    using example_split by (simp add: example_part_def)
  have m1: "sublist ''Content-Disposition'' (example_header @ CRLF @ CRLF @ (''DATA'' @ CRLF))"
    using example_markers(1) by (simp add: example_part_def)
  have m2: "sublist ''filename'' (example_header @ CRLF @ CRLF @ (''DATA'' @ CRLF))"
    using example_markers(2) by (simp add: example_part_def)
  have others: "\<forall>q\<in>set ([[]] @ [''--'' @ CRLF]).
      \<not> (sublist ''Content-Disposition'' q \<and> sublist ''filename'' q \<and> sublist (CRLF @ CRLF) q)"
    using example_others by simp
  have "\<forall>r. ''DATA'' @ CRLF = r @ CRLF \<longrightarrow>
      parse_multipart_form_data example_body example_content_type = Some r"
    using extract_single_file_part [OF example_boundary example_delimiter s m1 m2
        example_markers(3) others] by blast
  then have "parse_multipart_form_data example_body example_content_type = Some ''DATA''"
    by blast
  with s show ?thesis by blast
qed

text \<open>
  Claim C5. When no part of the split body contains both markers together with the blank
  line \<open>CRLF CRLF\<close>, the parser returns \<open>None\<close>.
\<close>

theorem extract_absent_without_file_part:
  assumes "\<forall>boundary delim.
      extract_boundary content_type = Inr boundary \<longrightarrow>
      encode (pystr ''--'' @ boundary) = Inr delim \<longrightarrow>
      (\<forall>p\<in>set (split_sep body' delim).
         \<not> (sublist ''Content-Disposition'' p \<and> sublist ''filename'' p \<and> sublist (CRLF @ CRLF) p))"
  shows "parse_multipart_form_data body' content_type = None"
proof (cases "extract_boundary content_type")
  case (Inl e)
  then show ?thesis
    by (simp add: parse_multipart_form_data_def parse_multipart_try_def)
next
  case (Inr boundary)
  show ?thesis
  proof (cases "encode (pystr ''--'' @ boundary)")
    case (Inl e)
    with Inr show ?thesis
      by (simp add: parse_multipart_form_data_def parse_multipart_try_def)
  next
    case delim: (Inr delim)
    from assms Inr delim have "\<forall>p\<in>set (split_sep body' delim).
         \<not> (sublist ''Content-Disposition'' p \<and> sublist ''filename'' p \<and> sublist (CRLF @ CRLF) p)"
      by blast
    then have "scan_parts (split_sep body' delim) = None" by (rule scan_parts_none)
    then show ?thesis using parse_with_boundary [OF Inr delim] by simp
  qed
qed

text \<open>The body with one form field and no file name gives \<open>None\<close>.\<close>

theorem extract_absent_without_file_part_witness:
  "extract_boundary example_content_type = Inr (pystr ''b'') \<and>
   parse_multipart_form_data example_field_body example_content_type = None"
proof -
  have "\<forall>boundary delim.
      extract_boundary example_content_type = Inr boundary \<longrightarrow>
      encode (pystr ''--'' @ boundary) = Inr delim \<longrightarrow>
      (\<forall>p\<in>set (split_sep example_field_body delim).
         \<not> (sublist ''Content-Disposition'' p \<and> sublist ''filename'' p \<and> sublist (CRLF @ CRLF) p))"
  proof (intro allI impI)
    fix boundary delim
    assume b: "extract_boundary example_content_type = Inr boundary"
       and d: "encode (pystr ''--'' @ boundary) = Inr delim"
    from b have "boundary = pystr ''b''" using example_boundary by simp
    with d have "delim = ''--b''" using example_delimiter by simp
    then show "\<forall>p\<in>set (split_sep example_field_body delim).
         \<not> (sublist ''Content-Disposition'' p \<and> sublist ''filename'' p \<and> sublist (CRLF @ CRLF) p)"
      using example_field_split example_field_none example_others by simp
  qed
  then have "parse_multipart_form_data example_field_body example_content_type = None"
    by (rule extract_absent_without_file_part)
  with example_boundary show ?thesis by simp
qed

text \<open>
  Claim C8, as stated, fails: \<open>strip('"')\<close> removes every leading and trailing double
  quote (code point 34), not one of each. For the remainder \<open>""a""\<close> the source gives the
  boundary \<open>a\<close>, where the wording of the specification gives \<open>"a"\<close>.
\<close>

theorem boundary_quotes_counterexample:
  "drop 9 (strip (split_sep (pystr ''multipart/form-data; boundary='' @ [34, 34, 97, 34, 34])
      (pystr '';'') ! 1)) = [34, 34, 97, 34, 34] \<and>
   extract_boundary (pystr ''multipart/form-data; boundary='' @ [34, 34, 97, 34, 34]) = Inr [97] \<and>
   strip_one_quote_spec [34, 34, 97, 34, 34] = [34, 97, 34]"
  by (simp add: extract_boundary_def split_def pystr_def strip_def
      strip_by_def isspace_def split1_def index_def strip_chars_def strip_one_quote_spec_def)

text \<open>
  Claim C8, amended. For a header whose first stripped segment that begins with
  \<open>boundary=\<close> is \<open>boundary=\<close> followed by \<open>remainder\<close>, the boundary token is the
  remainder without all of its leading and all of its trailing double quotes: the
  remainder is some quotes, the token, some quotes, and a token that is not empty neither
  starts nor ends with a quote. An empty token is the no-boundary error.
\<close>

theorem boundary_token_strips_all_quotes:
  assumes "split_sep content_type (pystr '';'') = pre @ [seg] @ post"
      and "\<forall>s\<in>set pre. \<not> prefix (pystr ''boundary='') (strip s)"
      and "strip seg = pystr ''boundary='' @ remainder"
  shows "\<exists>token n m.
           find_boundary (split_sep content_type (pystr '';'')) = Inr (Some token) \<and>
           remainder = replicate n 34 @ token @ replicate m 34 \<and>
           (token \<noteq> [] \<longrightarrow> hd token \<noteq> 34 \<and> last token \<noteq> 34) \<and>
           extract_boundary content_type =
             (if token = [] then Inl (ValueError (pystr ''No boundary found in Content-Type header''))
              else Inr token)"
proof -
  let ?segs = "pre @ [seg] @ post"
  have i: "length pre < length ?segs" by simp
  have at: "?segs ! length pre = seg" by simp
  have hit: "prefix (pystr ''boundary='') (strip (?segs ! length pre))"
    using assms(3) at by simp
  have miss: "\<forall>j<length pre. \<not> prefix (pystr ''boundary='') (strip (?segs ! j))"
    using assms(2) by (simp add: nth_append)
  have "length (pystr ''boundary='') = 9" by (simp add: pystr_def)
  then have rem: "drop 9 (strip seg) = remainder" using assms(3) by simp
  have fb: "find_boundary ?segs = Inr (Some (strip_chars remainder [34]))"
    using find_boundary_first [OF i hit miss] at rem by simp
  have sp: "split content_type (pystr '';'') = Inr ?segs"
    using assms(1) by (simp add: split_def pystr_def)
  have eb: "extract_boundary content_type =
      (if strip_chars remainder [34] = []
       then Inl (ValueError (pystr ''No boundary found in Content-Type header''))
       else Inr (strip_chars remainder [34]))"
    using sp fb by (simp add: extract_boundary_def)
  obtain n m where nm: "remainder = replicate n 34 @ strip_chars remainder [34] @ replicate m 34"
    using strip_chars_quotes by blast
  show ?thesis
    using fb nm eb strip_chars_quotes_ends [of remainder] assms(1) by metis
qed

text \<open>The header \<open>multipart/form-data; boundary="b"\<close>.\<close>

theorem boundary_token_strips_all_quotes_witness:
  "\<exists>token n m.
     find_boundary (split_sep (pystr ''multipart/form-data; boundary='' @ [34, 98, 34]) (pystr '';'')) =
       Inr (Some token) \<and>
     [34, 98, 34] = replicate n 34 @ token @ replicate m 34 \<and>
     (token \<noteq> [] \<longrightarrow> hd token \<noteq> 34 \<and> last token \<noteq> 34) \<and>
     extract_boundary (pystr ''multipart/form-data; boundary='' @ [34, 98, 34]) =
       (if token = [] then Inl (ValueError (pystr ''No boundary found in Content-Type header''))
        else Inr token)"
proof -
  have s: "split_sep (pystr ''multipart/form-data; boundary='' @ [34, 98, 34]) (pystr '';'') =
      [pystr ''multipart/form-data''] @ [pystr '' boundary='' @ [34, 98, 34]] @ []"
    by (simp add: pystr_def)
  have m: "\<forall>s\<in>set [pystr ''multipart/form-data'']. \<not> prefix (pystr ''boundary='') (strip s)"
    by (simp add: pystr_def strip_def strip_by_def isspace_def)
  have r: "strip (pystr '' boundary='' @ [34, 98, 34]) = pystr ''boundary='' @ [34, 98, 34]"
    by (simp add: pystr_def strip_def strip_by_def isspace_def)
  show ?thesis by (rule boundary_token_strips_all_quotes [OF s m r])
qed

text \<open>
  Claim C9, as stated, fails: the loop tests the first element of the split like every
  other one. A body that has the markers and the blank line before any delimiter is one
  single element, and the result is taken from it.
\<close>

theorem filler_selected_counterexample:
  "extract_boundary example_content_type = Inr (pystr ''b'') \<and>
   encode (pystr ''--'' @ pystr ''b'') = Inr ''--b'' \<and>
   split_sep example_filler_body ''--b'' = [example_filler_body] \<and>
   parse_multipart_form_data example_filler_body example_content_type = Some ''DATA''"
proof -
  have t: "scan_parts ((''Content-Disposition: filename'' @ CRLF @ CRLF @ ''DATA'') # []) =
      Some (if suffix CRLF ''DATA'' then take (length ''DATA'' - 2) ''DATA'' else ''DATA'')"
    using example_filler_markers
    by (intro scan_parts_target) (simp_all add: example_filler_body_def)
  have "\<not> suffix CRLF ''DATA''" by (simp add: suffix_def CRLF_def)
  with t have "scan_parts [example_filler_body] = Some ''DATA''"
    by (simp add: example_filler_body_def)
  then have "parse_multipart_form_data example_filler_body example_content_type = Some ''DATA''"
    using parse_with_boundary [OF example_boundary example_delimiter, of example_filler_body]
      example_filler_split by simp
  with example_boundary example_delimiter example_filler_split show ?thesis by simp
qed

text \<open>
  Claim C9, amended. The first element of the split is tested like every other part:
  when it lacks a marker or the blank line, the result is that of the remaining parts;
  when it has both markers and the blank line, the result is its content.
\<close>

theorem first_element_tested_like_the_rest:
  assumes "extract_boundary content_type = Inr boundary"
      and "encode (pystr ''--'' @ boundary) = Inr delim"
      and "split_sep body' delim = first # rest"
  shows "(\<not> (sublist ''Content-Disposition'' first \<and> sublist ''filename'' first \<and>
             sublist (CRLF @ CRLF) first) \<longrightarrow>
          parse_multipart_form_data body' content_type = scan_parts rest) \<and>
         (\<forall>hdr payload.
            first = hdr @ CRLF @ CRLF @ payload \<and>
            sublist ''Content-Disposition'' first \<and> sublist ''filename'' first \<and>
            \<not> sublist (CRLF @ CRLF) (hdr @ butlast (CRLF @ CRLF)) \<longrightarrow>
            parse_multipart_form_data body' content_type =
              Some (if suffix CRLF payload then take (length payload - 2) payload else payload))"
proof -
  have p: "parse_multipart_form_data body' content_type = scan_parts (first # rest)"
    using parse_with_boundary [OF assms(1,2), of body'] assms(3) by simp
  show ?thesis
  proof (intro conjI allI impI)
    assume "\<not> (sublist ''Content-Disposition'' first \<and> sublist ''filename'' first \<and>
             sublist (CRLF @ CRLF) first)"
    then show "parse_multipart_form_data body' content_type = scan_parts rest"
      using p scan_parts_miss [of first rest] by simp
  next
    fix hdr payload
    assume a: "first = hdr @ CRLF @ CRLF @ payload \<and>
            sublist ''Content-Disposition'' first \<and> sublist ''filename'' first \<and>
            \<not> sublist (CRLF @ CRLF) (hdr @ butlast (CRLF @ CRLF))"
    then have e: "first = hdr @ CRLF @ CRLF @ payload" by (rule conjunct1)
    from a have "sublist ''Content-Disposition'' first" by blast
    then have m1: "sublist ''Content-Disposition'' (hdr @ CRLF @ CRLF @ payload)"
      unfolding e .
    from a have "sublist ''filename'' first" by blast
    then have m2: "sublist ''filename'' (hdr @ CRLF @ CRLF @ payload)"
      unfolding e .
    from a have m3: "\<not> sublist (CRLF @ CRLF) (hdr @ butlast (CRLF @ CRLF))" by blast
    have "scan_parts ((hdr @ CRLF @ CRLF @ payload) # rest) =
        Some (if suffix CRLF payload then take (length payload - 2) payload else payload)"
      by (rule scan_parts_target [OF m1 m2 m3])
    with e p show "parse_multipart_form_data body' content_type =
        Some (if suffix CRLF payload then take (length payload - 2) payload else payload)"
      by simp
  qed
qed

text \<open>
  In the example body the first element is empty and is passed over; in the body without
  a delimiter the first element is selected.
\<close>

theorem first_element_tested_like_the_rest_witness:
  "split_sep example_body ''--b'' = [] # [example_part, ''--'' @ CRLF] \<and>
   \<not> sublist ''filename'' [] \<and>
   parse_multipart_form_data example_body example_content_type =
     scan_parts [example_part, ''--'' @ CRLF] \<and>
   split_sep example_filler_body ''--b'' = example_filler_body # [] \<and>
   parse_multipart_form_data example_filler_body example_content_type =
     Some (if suffix CRLF ''DATA'' then take (length ''DATA'' - 2) ''DATA'' else ''DATA'')"
proof -
  have 1: "parse_multipart_form_data example_body example_content_type =
     scan_parts [example_part, ''--'' @ CRLF]"
    using first_element_tested_like_the_rest [OF example_boundary example_delimiter,
        of example_body "[]" "[example_part, ''--'' @ CRLF]"]
      example_split example_others(1) by simp
  have s: "split_sep example_filler_body ''--b'' = example_filler_body # []"
    using example_filler_split by simp
  have "example_filler_body = ''Content-Disposition: filename'' @ CRLF @ CRLF @ ''DATA'' \<and>
      sublist ''Content-Disposition'' example_filler_body \<and>
      sublist ''filename'' example_filler_body \<and>
      \<not> sublist (CRLF @ CRLF) (''Content-Disposition: filename'' @ butlast (CRLF @ CRLF))"
    using example_filler_markers by (simp add: example_filler_body_def)
  then have 2: "parse_multipart_form_data example_filler_body example_content_type =
     Some (if suffix CRLF ''DATA'' then take (length ''DATA'' - 2) ''DATA'' else ''DATA'')"
    using first_element_tested_like_the_rest [OF example_boundary example_delimiter s]
    by blast
  from 1 2 s example_split example_others(1) show ?thesis by simp
qed

section \<open>The handler on the example inputs\<close>

lemma example_env_fields:
  "BUCKET_NAME (example_env ls) = Some (pystr ''bucket'')"
  "pystr ''bucket'' \<noteq> []"
  "put_object_error (example_env ls) = None"
  "detect_moderation_labels_result (example_env ls) = Inr ls"
  "copy_object_error (example_env ls) = None"
  "delete_object_error (example_env ls) = None"
  "uuid4 (example_env ls) = pystr ''id''"
  by (simp_all add: example_env_def pystr_def)

lemma example_event_content_type:
  "content_type \<noteq> [] \<Longrightarrow> get_content_type (example_event content_type body') = Some content_type"
  by (simp add: get_content_type_def example_event_def)

lemma example_content_type_nonempty: "example_content_type \<noteq> []"
  by (simp add: example_content_type_def pystr_def)

lemma example_ascii:
  "\<forall>c\<in>set example_body. of_char c < (128::nat)"
  "\<forall>c\<in>set example_field_body. of_char c < (128::nat)"
  "\<forall>c\<in>set example_empty_file_body. of_char c < (128::nat)"
  by (simp_all add: example_body_def example_part_def example_header_def example_field_body_def
      example_empty_file_body_def CRLF_def)

lemma example_event_decode:
  "\<forall>c\<in>set body'. of_char c < (128::nat) \<Longrightarrow>
   decode_body en (example_event content_type body') = Inr body'"
  by (simp add: decode_body_def example_event_def encode_ascii)

lemma example_parse: "parse_multipart_form_data example_body example_content_type = Some ''DATA''"
proof -
  have "scan_parts ((example_header @ CRLF @ CRLF @ (''DATA'' @ CRLF)) # [''--'' @ CRLF]) =
      Some (if suffix CRLF (''DATA'' @ CRLF) then take (length (''DATA'' @ CRLF) - 2) (''DATA'' @ CRLF)
            else ''DATA'' @ CRLF)"
    using example_markers by (intro scan_parts_target) (simp_all add: example_part_def)
  then have "scan_parts [example_part, ''--'' @ CRLF] = Some ''DATA''"
    by (simp only: strip_suffix_crlf example_part_def)
  moreover have "scan_parts ([] # [example_part, ''--'' @ CRLF]) = scan_parts [example_part, ''--'' @ CRLF]"
    using example_others(1) by (intro scan_parts_miss) simp
  ultimately show ?thesis
    using parse_with_boundary [OF example_boundary example_delimiter, of example_body]
      example_split by simp
qed

lemma example_empty_file_parse:
  "parse_multipart_form_data example_empty_file_body example_content_type = Some []"
proof -
  have "scan_parts ((example_header @ CRLF @ CRLF @ ([] @ CRLF)) # [''--'' @ CRLF]) =
      Some (if suffix CRLF ([] @ CRLF) then take (length ([] @ CRLF) - 2) ([] @ CRLF)
            else [] @ CRLF)"
    using example_empty_file_markers example_markers(3)
    by (intro scan_parts_target) simp_all
  then have "scan_parts ((example_header @ CRLF @ CRLF @ ([] @ CRLF)) # [''--'' @ CRLF]) = Some []"
    by (simp only: strip_suffix_crlf)
  then have "scan_parts [example_header @ CRLF @ CRLF @ CRLF, ''--'' @ CRLF] = Some []"
    by (simp only: append_Nil)
  moreover have "scan_parts ([] # [example_header @ CRLF @ CRLF @ CRLF, ''--'' @ CRLF]) =
      scan_parts [example_header @ CRLF @ CRLF @ CRLF, ''--'' @ CRLF]"
    using example_others(1) by (intro scan_parts_miss) simp
  ultimately show ?thesis
    using parse_with_boundary [OF example_boundary example_delimiter, of example_empty_file_body]
      example_empty_file_split by simp
qed

lemma example_field_parse:
  "parse_multipart_form_data example_field_body example_content_type = None"
proof -
  have "scan_parts (split_sep example_field_body ''--b'') = None"
    using example_field_split example_field_none example_others
    by (intro scan_parts_none) simp
  then show ?thesis
    using parse_with_boundary [OF example_boundary example_delimiter, of example_field_body]
    by simp
qed

lemma example_no_boundary:
  "\<forall>seg\<in>set (split_sep (pystr ''multipart/form-data'') (pystr '';'')).
     \<not> prefix (pystr ''boundary='') (strip seg)"
  by (simp add: pystr_def strip_def strip_by_def isspace_def)

lemma example_run_try:
  "lambda_handler_try en (example_event example_content_type example_body) w =
   (if BUCKET_NAME en = None \<or> BUCKET_NAME en = Some []
    then (Inl (ValueError (pystr ''BUCKET_NAME environment variable not set'')), w)
    else process_image en (the (BUCKET_NAME en)) ''DATA'' w)"
proof (cases "BUCKET_NAME en = None \<or> BUCKET_NAME en = Some []")
  case True
  then show ?thesis by (auto simp: lambda_handler_try_def)
next
  case False
  then obtain bn where bn: "BUCKET_NAME en = Some bn" "bn \<noteq> []" by auto
  show ?thesis
    using handler_reaches_parser [OF bn
        example_event_content_type [OF example_content_type_nonempty]
        example_content_type_nonempty example_event_decode [OF example_ascii(1)], of w]
      bn example_parse by simp
qed

lemma example_run_success:
  "example_run ls =
     (Response200 (pystr ''id'' @ pystr ''.jpg'') (map Name ls \<noteq> []) (map Name ls)
        (pystr ''Image moved to '' @
         (if map Name ls \<noteq> [] then pystr ''nsfw'' else pystr ''safe'') @ pystr '' folder'')
        ((if map Name ls \<noteq> [] then pystr ''nsfw'' else pystr ''safe'') @ pystr ''/'' @
         pystr ''id'' @ pystr ''.jpg''),
      snd (example_run ls))"
proof -
  have "lambda_handler_try (example_env ls) (example_event example_content_type example_body)
          empty_world =
        process_image (example_env ls) (pystr ''bucket'') ''DATA'' empty_world"
    using example_run_try [of "example_env ls" empty_world] example_env_fields(1) [of ls] example_env_fields(2)
    by simp
  then show ?thesis
    using process_image_success [OF example_env_fields(3) [of ls] example_env_fields(4) [of ls]
        example_env_fields(5) [of ls] example_env_fields(6) [of ls],
        of "pystr ''bucket''" "''DATA''" empty_world]
    by (simp add: example_run_def lambda_handler_def example_env_fields(7))
qed

lemma example_copy_fails_env_fields:
  "BUCKET_NAME example_copy_fails_env = Some (pystr ''bucket'')"
  "put_object_error example_copy_fails_env = None"
  "copy_object_error example_copy_fails_env \<noteq> None"
  by (simp_all add: example_copy_fails_env_def example_env_def)

lemma example_run_calls:
  "(DeleteObject (pystr ''bucket'') (pystr ''uploads/'' @ pystr ''id'' @ pystr ''.jpg''), True) \<in>
     set (calls (snd (example_run ls)))"
proof -
  have "lambda_handler_try (example_env ls) (example_event example_content_type example_body)
          empty_world =
        process_image (example_env ls) (pystr ''bucket'') ''DATA'' empty_world"
    using example_run_try [of "example_env ls" empty_world] example_env_fields(1) [of ls]
      example_env_fields(2)
    by simp
  then show ?thesis
    using process_image_success [OF example_env_fields(3) [of ls] example_env_fields(4) [of ls]
        example_env_fields(5) [of ls] example_env_fields(6) [of ls],
        of "pystr ''bucket''" "''DATA''" empty_world]
    by (simp add: example_run_def lambda_handler_def example_env_fields(7) empty_world_def)
qed

section \<open>The runs of the handler and their traces\<close>

lemma lambda_handler_cases:
  assumes "lambda_handler en ev w = (rsp, w')"
  shows "(\<exists>e. rsp = Response500 (str_exn e) (pystr ''Failed to process image'') \<and> w' = w) \<or>
         (\<exists>bucket_name content_type body' image_data r.
            BUCKET_NAME en = Some bucket_name \<and> bucket_name \<noteq> [] \<and>
            get_content_type ev = Some content_type \<and> content_type \<noteq> [] \<and>
            decode_body en ev = Inr body' \<and>
            parse_multipart_form_data body' content_type = Some image_data \<and> image_data \<noteq> [] \<and>
            process_image en bucket_name image_data w = (r, w') \<and>
            rsp = (case r of Inl e \<Rightarrow> Response500 (str_exn e) (pystr ''Failed to process image'')
                   | Inr x \<Rightarrow> x))"
proof -
  obtain r where t: "lambda_handler_try en ev w = (r, w')"
    and rsp: "rsp = (case r of Inl e \<Rightarrow> Response500 (str_exn e) (pystr ''Failed to process image'')
                   | Inr x \<Rightarrow> x)"
    using assms unfolding lambda_handler_def
    by (cases "lambda_handler_try en ev w") (auto split: sum.splits)
  from lambda_handler_try_cases [OF t] rsp show ?thesis by auto
qed

lemma no_delete_at:
  assumes "\<forall>x\<in>set cs. \<forall>b k. fst x \<noteq> DeleteObject b k" and "i < length cs"
  shows "cs ! i \<noteq> (DeleteObject b k, ok)"
proof
  assume "cs ! i = (DeleteObject b k, ok)"
  with assms(2) have "(DeleteObject b k, ok) \<in> set cs" by (metis nth_mem)
  with assms(1) show False by fastforce
qed

lemma no_delete_vacuous:
  assumes "\<forall>x\<in>set cs. \<forall>b k. fst x \<noteq> DeleteObject b k"
  shows "\<forall>i<length cs. \<forall>b k ok. cs ! i = (DeleteObject b k, ok) \<longrightarrow> Q i b k ok"
  using no_delete_at [OF assms] by blast

lemma delete_after_copy_at:
  assumes pre: "\<forall>x\<in>set pre. \<forall>b k. fst x \<noteq> DeleteObject b k"
      and i: "i < length (pre @ [(CopyObject b' b' k' dst', True), (DeleteObject b' k', ok')])"
      and d: "(pre @ [(CopyObject b' b' k' dst', True), (DeleteObject b' k', ok')]) ! i =
              (DeleteObject b k, ok)"
  shows "b = b' \<and> k = k' \<and>
         (\<exists>j<i. (pre @ [(CopyObject b' b' k' dst', True), (DeleteObject b' k', ok')]) ! j =
                  (CopyObject b' b' k' dst', True))"
proof -
  let ?cs = "pre @ [(CopyObject b' b' k' dst', True), (DeleteObject b' k', ok')]"
  consider "i < length pre" | "i = length pre" | "i = Suc (length pre)"
    using i by fastforce
  then show ?thesis
  proof cases
    case 1
    then have "?cs ! i = pre ! i" by (simp add: nth_append)
    with d no_delete_at [OF pre 1, of b k ok] show ?thesis by simp
  next
    case 2
    with d show ?thesis by (simp add: nth_append)
  next
    case 3
    with d have "b = b'" "k = k'" by (simp_all add: nth_append)
    moreover have "?cs ! length pre = (CopyObject b' b' k' dst', True)" by (simp add: nth_append)
    ultimately show ?thesis using 3 by blast
  qed
qed

lemma process_image_Inr:
  assumes "process_image en bucket_name image_data w = (Inr x, w')"
  shows "\<exists>ls. put_object_error en = None \<and> detect_moderation_labels_result en = Inr ls \<and>
              copy_object_error en = None \<and> delete_object_error en = None"
proof (cases "put_object_error en")
  case (Some e)
  with assms show ?thesis
    using process_image_put_failed [OF Some, of bucket_name image_data w] by simp
next
  case put: None
  show ?thesis
  proof (cases "detect_moderation_labels_result en")
    case (Inl e)
    with assms show ?thesis
      using process_image_detect_failed [OF put Inl, of bucket_name image_data w] by simp
  next
    case (Inr ls)
    show ?thesis
    proof (cases "copy_object_error en")
      case (Some e)
      with assms show ?thesis
        using process_image_copy_failed [OF put Inr Some, of bucket_name image_data w] by simp
    next
      case copy: None
      show ?thesis
      proof (cases "delete_object_error en")
        case (Some e)
        with assms show ?thesis
          using process_image_delete_failed [OF put Inr copy Some, of bucket_name image_data w]
          by simp
      next
        case None
        with put Inr copy show ?thesis by simp
      qed
    qed
  qed
qed

lemma process_image_trace:
  assumes "process_image en bucket_name image_data w = (r, w')"
  shows "\<exists>cs. calls w' = calls w @ cs \<and>
          (\<forall>i<length cs. \<forall>b k ok. cs ! i = (DeleteObject b k, ok) \<longrightarrow>
             b = bucket_name \<and> k = pystr ''uploads/'' @ uuid4 en @ pystr ''.jpg'' \<and>
             (\<exists>ls. detect_moderation_labels_result en = Inr ls \<and>
                (\<exists>j<i. cs ! j =
                   (CopyObject bucket_name bucket_name (pystr ''uploads/'' @ uuid4 en @ pystr ''.jpg'')
                      ((if map Name ls \<noteq> [] then pystr ''nsfw'' else pystr ''safe'') @ pystr ''/'' @
                       uuid4 en @ pystr ''.jpg''), True)) \<and>
                store w' (bucket_name,
                   (if map Name ls \<noteq> [] then pystr ''nsfw'' else pystr ''safe'') @ pystr ''/'' @
                   uuid4 en @ pystr ''.jpg'') = Some image_data))"
proof -
  define temp where "temp = pystr ''uploads/'' @ uuid4 en @ pystr ''.jpg''"
  define P where "P = PutObject bucket_name temp image_data (pystr ''image/jpeg'')"
  define D where "D = DetectModerationLabels bucket_name temp 70"
  define Q where "Q = (\<lambda>cs i b k.
      b = bucket_name \<and> k = temp \<and>
      (\<exists>ls. detect_moderation_labels_result en = Inr ls \<and>
         (\<exists>j<i. cs ! j =
            (CopyObject bucket_name bucket_name temp
               ((if map Name ls \<noteq> [] then pystr ''nsfw'' else pystr ''safe'') @ pystr ''/'' @
                uuid4 en @ pystr ''.jpg''), True)) \<and>
         store w' (bucket_name,
            (if map Name ls \<noteq> [] then pystr ''nsfw'' else pystr ''safe'') @ pystr ''/'' @
            uuid4 en @ pystr ''.jpg'') = Some image_data))"
  have nd: "\<forall>b k. P \<noteq> DeleteObject b k" "\<forall>b k. D \<noteq> DeleteObject b k"
    by (simp_all add: P_def D_def)
  have goal: "\<exists>cs. calls w' = calls w @ cs \<and>
      (\<forall>i<length cs. \<forall>b k ok. cs ! i = (DeleteObject b k, ok) \<longrightarrow> Q cs i b k)"
  proof (cases "put_object_error en")
    case (Some e)
    have c: "calls w' = calls w @ [(P, False)]"
      using assms process_image_put_failed [OF Some, of bucket_name image_data w]
      by (auto simp: P_def temp_def)
    have n: "\<forall>x\<in>set [(P, False)]. \<forall>b k. fst x \<noteq> DeleteObject b k"
      using nd by simp
    have "\<forall>i<length [(P, False)]. \<forall>b k ok.
        [(P, False)] ! i = (DeleteObject b k, ok) \<longrightarrow> Q [(P, False)] i b k"
      by (rule no_delete_vacuous [OF n])
    with c show ?thesis by blast
  next
    case put: None
    show ?thesis
    proof (cases "detect_moderation_labels_result en")
      case (Inl e)
      have c: "calls w' = calls w @ [(P, True), (D, False)]"
        using assms process_image_detect_failed [OF put Inl, of bucket_name image_data w]
        by (auto simp: P_def D_def temp_def)
      have n: "\<forall>x\<in>set [(P, True), (D, False)]. \<forall>b k. fst x \<noteq> DeleteObject b k"
        using nd by simp
      have "\<forall>i<length [(P, True), (D, False)]. \<forall>b k ok.
          [(P, True), (D, False)] ! i = (DeleteObject b k, ok) \<longrightarrow> Q [(P, True), (D, False)] i b k"
        by (rule no_delete_vacuous [OF n])
      with c show ?thesis by blast
    next
      case (Inr ls)
      define final where
        "final = (if map Name ls \<noteq> [] then pystr ''nsfw'' else pystr ''safe'') @ pystr ''/'' @
                 uuid4 en @ pystr ''.jpg''"
      have differ: "final \<noteq> temp"
        unfolding final_def temp_def
        by (rule keys_differ [of "map Name ls \<noteq> []" "uuid4 en @ pystr ''.jpg''"])
      show ?thesis
      proof (cases "copy_object_error en")
        case (Some e)
        let ?cs = "[(P, True), (D, True), (CopyObject bucket_name bucket_name temp final, False)]"
        have c: "calls w' = calls w @ ?cs"
          using assms process_image_copy_failed [OF put Inr Some, of bucket_name image_data w]
          by (auto simp: P_def D_def temp_def final_def)
        have n: "\<forall>x\<in>set ?cs. \<forall>b k. fst x \<noteq> DeleteObject b k"
          using nd by simp
        have "\<forall>i<length ?cs. \<forall>b k ok. ?cs ! i = (DeleteObject b k, ok) \<longrightarrow> Q ?cs i b k"
          by (rule no_delete_vacuous [OF n])
        with c show ?thesis by blast
      next
        case copy: None
        have pre: "\<forall>x\<in>set [(P, True), (D, True)]. \<forall>b k. fst x \<noteq> DeleteObject b k"
          using nd by simp
        have "\<exists>ok. calls w' = calls w @ [(P, True), (D, True)] @
                [(CopyObject bucket_name bucket_name temp final, True),
                 (DeleteObject bucket_name temp, ok)] \<and>
              store w' (bucket_name, final) = Some image_data"
        proof (cases "delete_object_error en")
          case (Some e)
          then show ?thesis
            using assms differ
              process_image_delete_failed [OF put Inr copy Some, of bucket_name image_data w]
            by (auto simp: P_def D_def temp_def final_def)
        next
          case None
          then show ?thesis
            using assms differ
              process_image_success [OF put Inr copy None, of bucket_name image_data w]
            by (auto simp: P_def D_def temp_def final_def)
        qed
        then obtain ok where c: "calls w' = calls w @ [(P, True), (D, True)] @
                [(CopyObject bucket_name bucket_name temp final, True),
                 (DeleteObject bucket_name temp, ok)]"
          and st: "store w' (bucket_name, final) = Some image_data" by blast
        let ?cs = "[(P, True), (D, True)] @
                [(CopyObject bucket_name bucket_name temp final, True),
                 (DeleteObject bucket_name temp, ok)]"
        have "\<forall>i<length ?cs. \<forall>b k ok'. ?cs ! i = (DeleteObject b k, ok') \<longrightarrow> Q ?cs i b k"
        proof (intro allI impI)
          fix i b k ok'
          assume i: "i < length ?cs" and d: "?cs ! i = (DeleteObject b k, ok')"
          from delete_after_copy_at [OF pre i d]
          have "b = bucket_name" "k = temp"
            and "\<exists>j<i. ?cs ! j = (CopyObject bucket_name bucket_name temp final, True)"
            by blast+
          with Inr st show "Q ?cs i b k"
            unfolding Q_def final_def by blast
        qed
        with c show ?thesis by blast
      qed
    qed
  qed
  then show ?thesis unfolding Q_def temp_def .
qed

lemma parse_missing_boundary:
  assumes "\<forall>seg\<in>set (split_sep content_type (pystr '';'')). \<not> prefix (pystr ''boundary='') (strip seg)"
  shows "parse_multipart_try body' content_type =
           Inl (ValueError (pystr ''No boundary found in Content-Type header''))"
    and "parse_multipart_form_data body' content_type = None"
  using extract_boundary_missing [OF assms]
  by (simp_all add: parse_multipart_form_data_def parse_multipart_try_def)

lemma pystr_nonempty: "pystr ''multipart/form-data'' \<noteq> []"
  by (simp add: pystr_def)

section \<open>The claims about the handler\<close>

text \<open>
  Claim C6. When the parser returns \<open>None\<close>, the handler answers with the 500 response
  whose error is the no-file message, and the world is unchanged: no object is stored
  and no service call is added to the trace.
\<close>

theorem absent_file_fails_without_calls:
  assumes "BUCKET_NAME en = Some bucket_name" and "bucket_name \<noteq> []"
      and "get_content_type ev = Some content_type" and "content_type \<noteq> []"
      and "decode_body en ev = Inr body'"
      and "parse_multipart_form_data body' content_type = None"
  shows "lambda_handler en ev w =
         (Response500 (pystr ''No file found in multipart/form-data payload'')
            (pystr ''Failed to process image''), w)"
  using handler_reaches_parser [OF assms(1-5), of w] assms(6)
  by (simp add: lambda_handler_def)

text \<open>The body with one form field and no file name.\<close>

theorem absent_file_fails_without_calls_witness:
  "parse_multipart_form_data example_field_body example_content_type = None \<and>
   lambda_handler (example_env []) (example_event example_content_type example_field_body) empty_world =
     (Response500 (pystr ''No file found in multipart/form-data payload'')
        (pystr ''Failed to process image''), empty_world)"
  using absent_file_fails_without_calls [OF example_env_fields(1,2)
      example_event_content_type [OF example_content_type_nonempty]
      example_content_type_nonempty example_event_decode [OF example_ascii(2)]
      example_field_parse, of "[]" empty_world]
    example_field_parse
  by simp

text \<open>
  Claim C10. When the parser returns the empty byte string, the handler answers as for
  \<open>None\<close>: the 500 response with the no-file message, and the world is unchanged.
\<close>

theorem empty_file_fails_without_calls:
  assumes "BUCKET_NAME en = Some bucket_name" and "bucket_name \<noteq> []"
      and "get_content_type ev = Some content_type" and "content_type \<noteq> []"
      and "decode_body en ev = Inr body'"
      and "parse_multipart_form_data body' content_type = Some []"
  shows "lambda_handler en ev w =
         (Response500 (pystr ''No file found in multipart/form-data payload'')
            (pystr ''Failed to process image''), w)"
  using handler_reaches_parser [OF assms(1-5), of w] assms(6)
  by (simp add: lambda_handler_def)

text \<open>The body whose file part is empty: the parser returns \<open>b''\<close>.\<close>

theorem empty_file_fails_without_calls_witness:
  "parse_multipart_form_data example_empty_file_body example_content_type = Some [] \<and>
   lambda_handler (example_env []) (example_event example_content_type example_empty_file_body)
       empty_world =
     (Response500 (pystr ''No file found in multipart/form-data payload'')
        (pystr ''Failed to process image''), empty_world)"
  using empty_file_fails_without_calls [OF example_env_fields(1,2)
      example_event_content_type [OF example_content_type_nonempty]
      example_content_type_nonempty example_event_decode [OF example_ascii(3)]
      example_empty_file_parse, of "[]" empty_world]
    example_empty_file_parse
  by simp

text \<open>
  Claim C4, as stated, fails: the \<open>ValueError\<close> for the missing boundary is raised inside
  the \<open>try\<close> block of the parser, whose \<open>except\<close> clause returns \<open>None\<close>. For the header
  \<open>multipart/form-data\<close> the parser returns \<open>None\<close>, not an error, and the response of the
  handler carries the no-file message, which does not mention the header.
\<close>

theorem missing_boundary_counterexample:
  "parse_multipart_form_data example_body (pystr ''multipart/form-data'') = None \<and>
   lambda_handler (example_env []) (example_event (pystr ''multipart/form-data'') example_body)
       empty_world =
     (Response500 (pystr ''No file found in multipart/form-data payload'')
        (pystr ''Failed to process image''), empty_world)"
proof -
  have n: "parse_multipart_form_data example_body (pystr ''multipart/form-data'') = None"
    by (rule parse_missing_boundary(2) [OF example_no_boundary])
  have "lambda_handler_try (example_env []) (example_event (pystr ''multipart/form-data'') example_body)
       empty_world =
     (Inl (ValueError (pystr ''No file found in multipart/form-data payload'')), empty_world)"
    using handler_reaches_parser [OF example_env_fields(1,2)
        example_event_content_type [OF pystr_nonempty] pystr_nonempty
        example_event_decode [OF example_ascii(1)], of "[]" empty_world] n
    by simp
  with n show ?thesis by (simp add: lambda_handler_def)
qed

text \<open>
  Claim C4, amended. For a header without a segment that begins with \<open>boundary=\<close>, the
  \<open>try\<close> block of the parser raises the no-boundary \<open>ValueError\<close> whatever the body is, the
  parser returns \<open>None\<close>, and the handler (with the bucket configured, the header present
  and the body decoded) answers with the 500 response whose error is the no-file message,
  leaving the world unchanged.
\<close>

theorem missing_boundary_reported_as_no_file:
  assumes "\<forall>seg\<in>set (split_sep content_type (pystr '';'')). \<not> prefix (pystr ''boundary='') (strip seg)"
  shows "parse_multipart_try body' content_type =
           Inl (ValueError (pystr ''No boundary found in Content-Type header'')) \<and>
         parse_multipart_form_data body' content_type = None \<and>
         (BUCKET_NAME en = Some bucket_name \<and> bucket_name \<noteq> [] \<and>
          get_content_type ev = Some content_type \<and> content_type \<noteq> [] \<and>
          decode_body en ev = Inr body' \<longrightarrow>
          lambda_handler en ev w =
            (Response500 (pystr ''No file found in multipart/form-data payload'')
               (pystr ''Failed to process image''), w))"
proof (intro conjI impI)
  show "parse_multipart_try body' content_type =
           Inl (ValueError (pystr ''No boundary found in Content-Type header''))"
    by (rule parse_missing_boundary(1) [OF assms])
  show n: "parse_multipart_form_data body' content_type = None"
    by (rule parse_missing_boundary(2) [OF assms])
  assume a: "BUCKET_NAME en = Some bucket_name \<and> bucket_name \<noteq> [] \<and>
          get_content_type ev = Some content_type \<and> content_type \<noteq> [] \<and>
          decode_body en ev = Inr body'"
  then have "lambda_handler_try en ev w =
      (Inl (ValueError (pystr ''No file found in multipart/form-data payload'')), w)"
    using handler_reaches_parser [of en bucket_name ev content_type body' w] n by simp
  then show "lambda_handler en ev w =
            (Response500 (pystr ''No file found in multipart/form-data payload'')
               (pystr ''Failed to process image''), w)"
    by (simp add: lambda_handler_def)
qed

text \<open>The header \<open>multipart/form-data\<close>, with the example body and with an empty body.\<close>

theorem missing_boundary_reported_as_no_file_witness:
  "parse_multipart_try example_body (pystr ''multipart/form-data'') =
     Inl (ValueError (pystr ''No boundary found in Content-Type header'')) \<and>
   parse_multipart_try [] (pystr ''multipart/form-data'') =
     Inl (ValueError (pystr ''No boundary found in Content-Type header'')) \<and>
   lambda_handler (example_env []) (example_event (pystr ''multipart/form-data'') example_body)
       empty_world =
     (Response500 (pystr ''No file found in multipart/form-data payload'')
        (pystr ''Failed to process image''), empty_world)"
  using missing_boundary_reported_as_no_file [OF example_no_boundary,
      of example_body "example_env []" "pystr ''bucket''"
        "example_event (pystr ''multipart/form-data'') example_body" empty_world]
    missing_boundary_reported_as_no_file [OF example_no_boundary,
      of "[]" "example_env []" "pystr ''bucket''"
        "example_event (pystr ''multipart/form-data'') example_body" empty_world]
    example_env_fields(1) [of "[]"] example_env_fields(2)
    example_event_content_type [OF pystr_nonempty, of example_body]
    pystr_nonempty
    example_event_decode [OF example_ascii(1), of "example_env []" "pystr ''multipart/form-data''"]
  by simp

text \<open>
  Claim C7. When the upload succeeds and the classification, the copy or the delete
  fails, the handler answers with the 500 response for that exception; the trace of the
  run is the successful upload, then calls that all succeeded and are no delete, then the
  failed call, which is the last one; and the staged object is still in the store.
\<close>

theorem staged_object_remains_on_failure:
  assumes "BUCKET_NAME en = Some bucket_name" and "bucket_name \<noteq> []"
      and "get_content_type ev = Some content_type" and "content_type \<noteq> []"
      and "decode_body en ev = Inr body'"
      and "parse_multipart_form_data body' content_type = Some image_data"
      and "image_data \<noteq> []"
      and "put_object_error en = None"
      and "(\<exists>e. detect_moderation_labels_result en = Inl e) \<or> copy_object_error en \<noteq> None \<or>
           delete_object_error en \<noteq> None"
      and "lambda_handler en ev w = (rsp, w')"
  shows "\<exists>e cs c.
           rsp = Response500 (str_exn e) (pystr ''Failed to process image'') \<and>
           calls w' = calls w @
             (PutObject bucket_name (pystr ''uploads/'' @ uuid4 en @ pystr ''.jpg'') image_data
                (pystr ''image/jpeg''), True) # cs @ [(c, False)] \<and>
           (\<forall>x\<in>set cs. snd x \<and> (\<forall>b k. fst x \<noteq> DeleteObject b k)) \<and>
           store w' (bucket_name, pystr ''uploads/'' @ uuid4 en @ pystr ''.jpg'') = Some image_data"
proof -
  have t: "lambda_handler_try en ev w = process_image en bucket_name image_data w"
    using handler_reaches_parser [OF assms(1-5), of w] assms(6,7) by simp
  show ?thesis
  proof (cases "detect_moderation_labels_result en")
    case (Inl e)
    have "rsp = Response500 (str_exn e) (pystr ''Failed to process image'') \<and>
      calls w' = calls w @
        (PutObject bucket_name (pystr ''uploads/'' @ uuid4 en @ pystr ''.jpg'') image_data
           (pystr ''image/jpeg''), True) # [] @
        [(DetectModerationLabels bucket_name (pystr ''uploads/'' @ uuid4 en @ pystr ''.jpg'') 70, False)] \<and>
      store w' (bucket_name, pystr ''uploads/'' @ uuid4 en @ pystr ''.jpg'') = Some image_data"
      using assms(10) t process_image_detect_failed [OF assms(8) Inl, of bucket_name image_data w]
      by (auto simp: lambda_handler_def)
    then show ?thesis by (intro exI [of _ e] exI [of _ "[]"] exI) simp
  next
    case (Inr ls)
    show ?thesis
    proof (cases "copy_object_error en")
      case (Some e)
      have "rsp = Response500 (str_exn e) (pystr ''Failed to process image'') \<and>
        calls w' = calls w @
          (PutObject bucket_name (pystr ''uploads/'' @ uuid4 en @ pystr ''.jpg'') image_data
             (pystr ''image/jpeg''), True) #
          [(DetectModerationLabels bucket_name (pystr ''uploads/'' @ uuid4 en @ pystr ''.jpg'') 70, True)] @
          [(CopyObject bucket_name bucket_name (pystr ''uploads/'' @ uuid4 en @ pystr ''.jpg'')
              ((if map Name ls \<noteq> [] then pystr ''nsfw'' else pystr ''safe'') @ pystr ''/'' @
               uuid4 en @ pystr ''.jpg''), False)] \<and>
        store w' (bucket_name, pystr ''uploads/'' @ uuid4 en @ pystr ''.jpg'') = Some image_data"
        using assms(10) t process_image_copy_failed [OF assms(8) Inr Some, of bucket_name image_data w]
        by (auto simp: lambda_handler_def)
      then show ?thesis
        by (intro exI [of _ e]
            exI [of _ "[(DetectModerationLabels bucket_name
                           (pystr ''uploads/'' @ uuid4 en @ pystr ''.jpg'') 70, True)]"] exI) simp
    next
      case None
      with assms(9) Inr obtain e where e: "delete_object_error en = Some e" by auto
      have "rsp = Response500 (str_exn e) (pystr ''Failed to process image'') \<and>
        calls w' = calls w @
          (PutObject bucket_name (pystr ''uploads/'' @ uuid4 en @ pystr ''.jpg'') image_data
             (pystr ''image/jpeg''), True) #
          [(DetectModerationLabels bucket_name (pystr ''uploads/'' @ uuid4 en @ pystr ''.jpg'') 70, True),
           (CopyObject bucket_name bucket_name (pystr ''uploads/'' @ uuid4 en @ pystr ''.jpg'')
              ((if map Name ls \<noteq> [] then pystr ''nsfw'' else pystr ''safe'') @ pystr ''/'' @
               uuid4 en @ pystr ''.jpg''), True)] @
          [(DeleteObject bucket_name (pystr ''uploads/'' @ uuid4 en @ pystr ''.jpg''), False)] \<and>
        store w' (bucket_name, pystr ''uploads/'' @ uuid4 en @ pystr ''.jpg'') = Some image_data"
        using assms(10) t
          process_image_delete_failed [OF assms(8) Inr None e, of bucket_name image_data w]
          keys_differ [of "map Name ls \<noteq> []" "uuid4 en @ pystr ''.jpg''"]
        by (auto simp: lambda_handler_def)
      then show ?thesis
        by (intro exI [of _ e]
            exI [of _ "[(DetectModerationLabels bucket_name
                           (pystr ''uploads/'' @ uuid4 en @ pystr ''.jpg'') 70, True),
                        (CopyObject bucket_name bucket_name
                           (pystr ''uploads/'' @ uuid4 en @ pystr ''.jpg'')
                           ((if map Name ls \<noteq> [] then pystr ''nsfw'' else pystr ''safe'') @
                            pystr ''/'' @ uuid4 en @ pystr ''.jpg''), True)]"] exI) simp
    qed
  qed
qed

text \<open>The example run in which the copy fails: the trace ends with the failed copy.\<close>

theorem staged_object_remains_on_failure_witness:
  "\<exists>e cs c.
     fst example_failed_run = Response500 (str_exn e) (pystr ''Failed to process image'') \<and>
     calls (snd example_failed_run) = calls empty_world @
       (PutObject (pystr ''bucket'') (pystr ''uploads/'' @ uuid4 example_copy_fails_env @ pystr ''.jpg'')
          ''DATA'' (pystr ''image/jpeg''), True) # cs @ [(c, False)] \<and>
     (\<forall>x\<in>set cs. snd x \<and> (\<forall>b k. fst x \<noteq> DeleteObject b k)) \<and>
     store (snd example_failed_run)
       (pystr ''bucket'', pystr ''uploads/'' @ uuid4 example_copy_fails_env @ pystr ''.jpg'') =
       Some ''DATA''"
proof -
  have run: "lambda_handler example_copy_fails_env
      (example_event example_content_type example_body) empty_world =
      (fst example_failed_run, snd example_failed_run)"
    by (simp add: example_failed_run_def)
  have nonempty: "''DATA'' \<noteq> []" by simp
  have fails: "(\<exists>e. detect_moderation_labels_result example_copy_fails_env = Inl e) \<or>
      copy_object_error example_copy_fails_env \<noteq> None \<or>
      delete_object_error example_copy_fails_env \<noteq> None"
    using example_copy_fails_env_fields(3) by simp
  show ?thesis
    by (rule staged_object_remains_on_failure [OF example_copy_fails_env_fields(1)
          example_env_fields(2)
          example_event_content_type [OF example_content_type_nonempty]
          example_content_type_nonempty example_event_decode [OF example_ascii(1)]
          example_parse nonempty example_copy_fails_env_fields(2) fails run])
qed

text \<open>
  Claim C1. In every run of the handler, each delete in the trace of the run is the delete
  of the staging key, and it comes after a successful copy of the staging key to the final
  key (\<open>nsfw/\<close> or \<open>safe/\<close> followed by the file name, chosen by the labels that the
  classifier returned), which is another key; after the run the final key holds the bytes
  that the parser extracted. In every run that ends with the 200 response, the store
  afterwards has no object at the staging key, and at the final key it has the bytes that
  the parser extracted and that were uploaded to the staging key.
\<close>

theorem delete_only_after_successful_copy:
  assumes "lambda_handler en ev w = (rsp, w')"
  shows "(\<exists>cs. calls w' = calls w @ cs \<and>
            (\<forall>i<length cs. \<forall>b k ok. cs ! i = (DeleteObject b k, ok) \<longrightarrow>
               (\<exists>ls content_type body' image_data.
                  BUCKET_NAME en = Some b \<and> k = pystr ''uploads/'' @ uuid4 en @ pystr ''.jpg'' \<and>
                  detect_moderation_labels_result en = Inr ls \<and>
                  get_content_type ev = Some content_type \<and> decode_body en ev = Inr body' \<and>
                  parse_multipart_form_data body' content_type = Some image_data \<and>
                  (if map Name ls \<noteq> [] then pystr ''nsfw'' else pystr ''safe'') @ pystr ''/'' @
                    uuid4 en @ pystr ''.jpg'' \<noteq> k \<and>
                  (\<exists>j<i. cs ! j =
                     (CopyObject b b k
                        ((if map Name ls \<noteq> [] then pystr ''nsfw'' else pystr ''safe'') @ pystr ''/'' @
                         uuid4 en @ pystr ''.jpg''), True)) \<and>
                  store w' (b, (if map Name ls \<noteq> [] then pystr ''nsfw'' else pystr ''safe'') @
                     pystr ''/'' @ uuid4 en @ pystr ''.jpg'') = Some image_data))) \<and>
         (statusCode rsp = 200 \<longrightarrow>
            (\<exists>bucket_name content_type body' image_data.
               BUCKET_NAME en = Some bucket_name \<and> get_content_type ev = Some content_type \<and>
               decode_body en ev = Inr body' \<and>
               parse_multipart_form_data body' content_type = Some image_data \<and>
               (PutObject bucket_name (pystr ''uploads/'' @ file_name rsp) image_data
                  (pystr ''image/jpeg''), True) \<in> set (calls w') \<and>
               store w' (bucket_name, pystr ''uploads/'' @ file_name rsp) = None \<and>
               store w' (bucket_name, final_location rsp) = Some image_data))"
  using lambda_handler_cases [OF assms]
proof (elim disjE exE conjE)
  fix e
  assume "rsp = Response500 (str_exn e) (pystr ''Failed to process image'')" and "w' = w"
  then show ?thesis by simp
next
  fix bucket_name content_type body' image_data r
  assume bn: "BUCKET_NAME en = Some bucket_name"
     and ct: "get_content_type ev = Some content_type"
     and dec: "decode_body en ev = Inr body'"
     and parse: "parse_multipart_form_data body' content_type = Some image_data"
     and run: "process_image en bucket_name image_data w = (r, w')"
     and rsp: "rsp = (case r of Inl e \<Rightarrow> Response500 (str_exn e) (pystr ''Failed to process image'')
                      | Inr x \<Rightarrow> x)"
  from process_image_trace [OF run] obtain cs where
    cs: "calls w' = calls w @ cs"
    and tr: "\<forall>i<length cs. \<forall>b k ok. cs ! i = (DeleteObject b k, ok) \<longrightarrow>
             b = bucket_name \<and> k = pystr ''uploads/'' @ uuid4 en @ pystr ''.jpg'' \<and>
             (\<exists>ls. detect_moderation_labels_result en = Inr ls \<and>
                (\<exists>j<i. cs ! j =
                   (CopyObject bucket_name bucket_name (pystr ''uploads/'' @ uuid4 en @ pystr ''.jpg'')
                      ((if map Name ls \<noteq> [] then pystr ''nsfw'' else pystr ''safe'') @ pystr ''/'' @
                       uuid4 en @ pystr ''.jpg''), True)) \<and>
                store w' (bucket_name,
                   (if map Name ls \<noteq> [] then pystr ''nsfw'' else pystr ''safe'') @ pystr ''/'' @
                   uuid4 en @ pystr ''.jpg'') = Some image_data)"
    by blast
  have "\<forall>i<length cs. \<forall>b k ok. cs ! i = (DeleteObject b k, ok) \<longrightarrow>
               (\<exists>ls content_type body' image_data.
                  BUCKET_NAME en = Some b \<and> k = pystr ''uploads/'' @ uuid4 en @ pystr ''.jpg'' \<and>
                  detect_moderation_labels_result en = Inr ls \<and>
                  get_content_type ev = Some content_type \<and> decode_body en ev = Inr body' \<and>
                  parse_multipart_form_data body' content_type = Some image_data \<and>
                  (if map Name ls \<noteq> [] then pystr ''nsfw'' else pystr ''safe'') @ pystr ''/'' @
                    uuid4 en @ pystr ''.jpg'' \<noteq> k \<and>
                  (\<exists>j<i. cs ! j =
                     (CopyObject b b k
                        ((if map Name ls \<noteq> [] then pystr ''nsfw'' else pystr ''safe'') @ pystr ''/'' @
                         uuid4 en @ pystr ''.jpg''), True)) \<and>
                  store w' (b, (if map Name ls \<noteq> [] then pystr ''nsfw'' else pystr ''safe'') @
                     pystr ''/'' @ uuid4 en @ pystr ''.jpg'') = Some image_data)"
  proof (intro allI impI)
    fix i b k ok
    assume i: "i < length cs" and d: "cs ! i = (DeleteObject b k, ok)"
    from tr i d have b: "b = bucket_name" and k: "k = pystr ''uploads/'' @ uuid4 en @ pystr ''.jpg''"
      by blast+
    from tr i d obtain ls where
      ls: "detect_moderation_labels_result en = Inr ls"
      and cp: "\<exists>j<i. cs ! j =
                   (CopyObject bucket_name bucket_name (pystr ''uploads/'' @ uuid4 en @ pystr ''.jpg'')
                      ((if map Name ls \<noteq> [] then pystr ''nsfw'' else pystr ''safe'') @ pystr ''/'' @
                       uuid4 en @ pystr ''.jpg''), True)"
      and st: "store w' (bucket_name,
                   (if map Name ls \<noteq> [] then pystr ''nsfw'' else pystr ''safe'') @ pystr ''/'' @
                   uuid4 en @ pystr ''.jpg'') = Some image_data"
      by blast
    have differ: "(if map Name ls \<noteq> [] then pystr ''nsfw'' else pystr ''safe'') @ pystr ''/'' @
                    uuid4 en @ pystr ''.jpg'' \<noteq> k"
      unfolding k by (rule keys_differ [of "map Name ls \<noteq> []" "uuid4 en @ pystr ''.jpg''"])
    from bn ct dec parse ls differ cp st
    show "\<exists>ls content_type body' image_data.
                  BUCKET_NAME en = Some b \<and> k = pystr ''uploads/'' @ uuid4 en @ pystr ''.jpg'' \<and>
                  detect_moderation_labels_result en = Inr ls \<and>
                  get_content_type ev = Some content_type \<and> decode_body en ev = Inr body' \<and>
                  parse_multipart_form_data body' content_type = Some image_data \<and>
                  (if map Name ls \<noteq> [] then pystr ''nsfw'' else pystr ''safe'') @ pystr ''/'' @
                    uuid4 en @ pystr ''.jpg'' \<noteq> k \<and>
                  (\<exists>j<i. cs ! j =
                     (CopyObject b b k
                        ((if map Name ls \<noteq> [] then pystr ''nsfw'' else pystr ''safe'') @ pystr ''/'' @
                         uuid4 en @ pystr ''.jpg''), True)) \<and>
                  store w' (b, (if map Name ls \<noteq> [] then pystr ''nsfw'' else pystr ''safe'') @
                     pystr ''/'' @ uuid4 en @ pystr ''.jpg'') = Some image_data"
      unfolding b k by blast
  qed
  with cs have order: "(\<exists>cs. calls w' = calls w @ cs \<and>
            (\<forall>i<length cs. \<forall>b k ok. cs ! i = (DeleteObject b k, ok) \<longrightarrow>
               (\<exists>ls content_type body' image_data.
                  BUCKET_NAME en = Some b \<and> k = pystr ''uploads/'' @ uuid4 en @ pystr ''.jpg'' \<and>
                  detect_moderation_labels_result en = Inr ls \<and>
                  get_content_type ev = Some content_type \<and> decode_body en ev = Inr body' \<and>
                  parse_multipart_form_data body' content_type = Some image_data \<and>
                  (if map Name ls \<noteq> [] then pystr ''nsfw'' else pystr ''safe'') @ pystr ''/'' @
                    uuid4 en @ pystr ''.jpg'' \<noteq> k \<and>
                  (\<exists>j<i. cs ! j =
                     (CopyObject b b k
                        ((if map Name ls \<noteq> [] then pystr ''nsfw'' else pystr ''safe'') @ pystr ''/'' @
                         uuid4 en @ pystr ''.jpg''), True)) \<and>
                  store w' (b, (if map Name ls \<noteq> [] then pystr ''nsfw'' else pystr ''safe'') @
                     pystr ''/'' @ uuid4 en @ pystr ''.jpg'') = Some image_data)))"
    by blast
  have success: "(\<exists>bucket_name content_type body' image_data.
               BUCKET_NAME en = Some bucket_name \<and> get_content_type ev = Some content_type \<and>
               decode_body en ev = Inr body' \<and>
               parse_multipart_form_data body' content_type = Some image_data \<and>
               (PutObject bucket_name (pystr ''uploads/'' @ file_name rsp) image_data
                  (pystr ''image/jpeg''), True) \<in> set (calls w') \<and>
               store w' (bucket_name, pystr ''uploads/'' @ file_name rsp) = None \<and>
               store w' (bucket_name, final_location rsp) = Some image_data)"
    if ok: "statusCode rsp = 200"
  proof -
    from ok rsp obtain x where r: "r = Inr x" and x: "rsp = x"
      by (cases r) auto
    from process_image_Inr [OF run [unfolded r]] obtain ls where
      env: "put_object_error en = None" "detect_moderation_labels_result en = Inr ls"
        "copy_object_error en = None" "delete_object_error en = None" by blast
    have "(PutObject bucket_name (pystr ''uploads/'' @ file_name rsp) image_data
                  (pystr ''image/jpeg''), True) \<in> set (calls w') \<and>
               store w' (bucket_name, pystr ''uploads/'' @ file_name rsp) = None \<and>
               store w' (bucket_name, final_location rsp) = Some image_data"
      using run r x process_image_success [OF env, of bucket_name image_data w]
        keys_differ [of "map Name ls \<noteq> []" "uuid4 en @ pystr ''.jpg''"]
      by auto
    with bn ct dec parse show ?thesis by blast
  qed
  from order success show ?thesis by blast
qed

text \<open>
  The example run with no labels ends with the 200 response, and its trace has the
  delete of the staging key.
\<close>

theorem delete_only_after_successful_copy_witness:
  "statusCode (fst (example_run [])) = 200 \<and>
   (DeleteObject (pystr ''bucket'') (pystr ''uploads/'' @ pystr ''id'' @ pystr ''.jpg''), True) \<in>
     set (calls (snd (example_run []))) \<and>
   (\<exists>cs. calls (snd (example_run [])) = calls empty_world @ cs \<and>
            (\<forall>i<length cs. \<forall>b k ok. cs ! i = (DeleteObject b k, ok) \<longrightarrow>
               (\<exists>ls content_type body' image_data.
                  BUCKET_NAME (example_env []) = Some b \<and> k = pystr ''uploads/'' @ uuid4 (example_env []) @ pystr ''.jpg'' \<and>
                  detect_moderation_labels_result (example_env []) = Inr ls \<and>
                  get_content_type (example_event example_content_type example_body) = Some content_type \<and> decode_body (example_env []) (example_event example_content_type example_body) = Inr body' \<and>
                  parse_multipart_form_data body' content_type = Some image_data \<and>
                  (if map Name ls \<noteq> [] then pystr ''nsfw'' else pystr ''safe'') @ pystr ''/'' @
                    uuid4 (example_env []) @ pystr ''.jpg'' \<noteq> k \<and>
                  (\<exists>j<i. cs ! j =
                     (CopyObject b b k
                        ((if map Name ls \<noteq> [] then pystr ''nsfw'' else pystr ''safe'') @ pystr ''/'' @
                         uuid4 (example_env []) @ pystr ''.jpg''), True)) \<and>
                  store (snd (example_run [])) (b, (if map Name ls \<noteq> [] then pystr ''nsfw'' else pystr ''safe'') @
                     pystr ''/'' @ uuid4 (example_env []) @ pystr ''.jpg'') = Some image_data))) \<and>
   (\<exists>bucket_name content_type body' image_data.
               BUCKET_NAME (example_env []) = Some bucket_name \<and> get_content_type (example_event example_content_type example_body) = Some content_type \<and>
               decode_body (example_env []) (example_event example_content_type example_body) = Inr body' \<and>
               parse_multipart_form_data body' content_type = Some image_data \<and>
               (PutObject bucket_name (pystr ''uploads/'' @ file_name (fst (example_run []))) image_data
                  (pystr ''image/jpeg''), True) \<in> set (calls (snd (example_run []))) \<and>
               store (snd (example_run [])) (bucket_name, pystr ''uploads/'' @ file_name (fst (example_run []))) = None \<and>
               store (snd (example_run [])) (bucket_name, final_location (fst (example_run []))) = Some image_data)"
proof -
  have run: "lambda_handler (example_env []) (example_event example_content_type example_body)
      empty_world = (fst (example_run []), snd (example_run []))"
    by (simp add: example_run_def)
  have ok: "statusCode (fst (example_run [])) = 200"
    using example_run_success [of "[]"] by (metis fst_conv statusCode.simps(1))
  have del: "(DeleteObject (pystr ''bucket'') (pystr ''uploads/'' @ pystr ''id'' @ pystr ''.jpg''), True) \<in>
     set (calls (snd (example_run [])))"
    using example_run_calls [of "[]"] by simp
  from delete_only_after_successful_copy [OF run] ok del show ?thesis by blast
qed

text \<open>
  Claim C2. In every run that ends with the 200 response, the labels of the response are
  the names that the classifier returned, \<open>nsfw_detected\<close> holds exactly when that list is
  not empty, and the final key is \<open>nsfw/\<close> followed by the file name exactly when
  \<open>nsfw_detected\<close> holds and \<open>safe/\<close> followed by the file name exactly when it does not.
\<close>

theorem flagged_iff_labels_nonempty:
  assumes "lambda_handler en ev w = (rsp, w')" and "statusCode rsp = 200"
  shows "\<exists>ls. detect_moderation_labels_result en = Inr ls \<and> labels rsp = map Name ls \<and>
           (nsfw_detected rsp \<longleftrightarrow> ls \<noteq> []) \<and>
           (nsfw_detected rsp \<longleftrightarrow> prefix (pystr ''nsfw/'') (final_location rsp)) \<and>
           (\<not> nsfw_detected rsp \<longleftrightarrow> prefix (pystr ''safe/'') (final_location rsp)) \<and>
           final_location rsp =
             (if nsfw_detected rsp then pystr ''nsfw/'' else pystr ''safe/'') @ file_name rsp"
  using lambda_handler_cases [OF assms(1)]
proof (elim disjE exE conjE)
  fix e
  assume "rsp = Response500 (str_exn e) (pystr ''Failed to process image'')"
  with assms(2) show ?thesis by simp
next
  fix bucket_name content_type body' image_data r
  assume run: "process_image en bucket_name image_data w = (r, w')"
     and rsp: "rsp = (case r of Inl e \<Rightarrow> Response500 (str_exn e) (pystr ''Failed to process image'')
                      | Inr x \<Rightarrow> x)"
  from assms(2) rsp obtain x where r: "r = Inr x" and x: "rsp = x"
    by (cases r) auto
  from process_image_Inr [OF run [unfolded r]] obtain ls where
    env: "put_object_error en = None" "detect_moderation_labels_result en = Inr ls"
      "copy_object_error en = None" "delete_object_error en = None" by blast
  have "labels rsp = map Name ls \<and>
           (nsfw_detected rsp \<longleftrightarrow> ls \<noteq> []) \<and>
           (nsfw_detected rsp \<longleftrightarrow> prefix (pystr ''nsfw/'') (final_location rsp)) \<and>
           (\<not> nsfw_detected rsp \<longleftrightarrow> prefix (pystr ''safe/'') (final_location rsp)) \<and>
           final_location rsp =
             (if nsfw_detected rsp then pystr ''nsfw/'' else pystr ''safe/'') @ file_name rsp"
    using run r x process_image_success [OF env, of bucket_name image_data w]
    by (auto simp: pystr_def)
  with env(2) show ?thesis by blast
qed

text \<open>The example run with one label ends with the 200 response.\<close>

theorem flagged_iff_labels_nonempty_witness:
  "statusCode (fst (example_run [example_label])) = 200 \<and>
   (\<exists>ls. detect_moderation_labels_result (example_env [example_label]) = Inr ls \<and>
      labels (fst (example_run [example_label])) = map Name ls \<and>
      (nsfw_detected (fst (example_run [example_label])) \<longleftrightarrow> ls \<noteq> []) \<and>
      (nsfw_detected (fst (example_run [example_label])) \<longleftrightarrow>
         prefix (pystr ''nsfw/'') (final_location (fst (example_run [example_label])))) \<and>
      (\<not> nsfw_detected (fst (example_run [example_label])) \<longleftrightarrow>
         prefix (pystr ''safe/'') (final_location (fst (example_run [example_label])))) \<and>
      final_location (fst (example_run [example_label])) =
        (if nsfw_detected (fst (example_run [example_label])) then pystr ''nsfw/'' else pystr ''safe/'') @
        file_name (fst (example_run [example_label])))"
proof -
  have run: "lambda_handler (example_env [example_label])
      (example_event example_content_type example_body) empty_world =
      (fst (example_run [example_label]), snd (example_run [example_label]))"
    by (simp add: example_run_def)
  have ok: "statusCode (fst (example_run [example_label])) = 200"
    using example_run_success [of "[example_label]"] by (metis fst_conv statusCode.simps(1))
  from flagged_iff_labels_nonempty [OF run ok] ok show ?thesis by blast
qed

end
